theory Spec2Isabelle
  imports Main "HOL-Library.AList"
begin

section \<open>Values, frames and the module state of the realtime layer\<close>

text \<open>
  The realtime layer keeps its state in module-level variables (\<^verbatim>\<open>reconnectAttempts\<close>,
  \<^verbatim>\<open>__roomList\<close>, \<^verbatim>\<open>__roomPending\<close>, \<^verbatim>\<open>__rtcCandidates\<close>, \<^verbatim>\<open>__rtcSdpOffer\<close>,
  \<^verbatim>\<open>__socket\<close>, \<^verbatim>\<open>__socket_room\<close>, \<^verbatim>\<open>__peerConnection\<close>, \<^verbatim>\<open>__dataChannel\<close>,
  \<^verbatim>\<open>__mediaStream\<close>, \<^verbatim>\<open>peerCallbacks\<close>, \<^verbatim>\<open>__caller_ringing\<close>, \<^verbatim>\<open>__receiver_ringing\<close>).
  They are the fields of one record. A JavaScript object used as a dictionary is an
  association list in property order (\<open>AList.update\<close> replaces in place or appends,
  \<open>AList.delete\<close> is \<^verbatim>\<open>delete obj[key]\<close>, \<open>map_of\<close> is the lookup).

  Everything the code does to the outside (a frame written to the socket, a callback
  invoked, a call into the peer engine, a timer) is appended to the field \<open>trace\<close>, in
  the order in which the code does it.
\<close>

datatype json =
    JNull
  | JBool bool
  | JNum int
  | JStr string
  | JArr "json list"
  | JObj "(string \<times> json) list"

text \<open>JavaScript truthiness of a parsed JSON value; \<open>None\<close> stands for \<^verbatim>\<open>undefined\<close>.\<close>

fun truthy :: "json \<Rightarrow> bool" where
  "truthy JNull = False"
| "truthy (JBool b) = b"
| "truthy (JNum n) = (n \<noteq> 0)"
| "truthy (JStr s) = (s \<noteq> [])"
| "truthy (JArr xs) = True"
| "truthy (JObj kvs) = True"

fun truthy_opt :: "json option \<Rightarrow> bool" where
  "truthy_opt None = False"
| "truthy_opt (Some j) = truthy j"

text \<open>\<^verbatim>\<open>v.key\<close> for one of the protocol's keys: only an object has such a property.\<close>

fun jget :: "json \<Rightarrow> string \<Rightarrow> json option" where
  "jget (JObj kvs) k = map_of kvs k"
| "jget _ k = None"

text \<open>The key a value is stored under: \<^verbatim>\<open>obj[undefined]\<close> is the property \<^verbatim>\<open>"undefined"\<close>.\<close>

fun key_of :: "string option \<Rightarrow> string" where
  "key_of None = ''undefined''"
| "key_of (Some s) = s"

text \<open>Truthiness of a string-or-undefined value.\<close>

fun truthy_str :: "string option \<Rightarrow> bool" where
  "truthy_str None = False"
| "truthy_str (Some s) = (s \<noteq> [])"

text \<open>
  An inbound frame after \<^verbatim>\<open>JSON.parse(decodeURI(event.data))\<close>: the four classification
  fields and the three metadata fields the handler reads. The metadata fields are
  strings when present (the relay writes them); a parsed value that is not an object
  has none of the fields.
\<close>

record frame =
  f_message :: "json option"
  f_private :: "json option"
  f_notice :: "json option"
  f_rtc :: "json option"
  f_user_id :: "string option"
  f_scid :: "string option"
  f_srid :: "string option"

datatype msg_type = TMessage | TPrivate | TNotice | TRtc

text \<open>The closure \<^verbatim>\<open>receiveRTC.bind(this)(msg, rtc)\<close>: it keeps the frame's sender and payload.\<close>

record handle =
  h_sender :: "string option"
  h_rtc :: json

record msg =
  msg_type :: msg_type
  message :: json
  sender :: "string option"
  sender_cid :: "string option"
  sender_rid :: "string option"
  receiveRTC_handle :: "handle option"

datatype conn_state = CsNew | CsConnecting | CsConnected | CsDisconnected | CsFailed | CsClosed

datatype chan_state = ChConnecting | ChOpen | ChClosing | ChClosed

datatype ready_state = CONNECTING | OPEN | CLOSING | CLOSED

text \<open>
  \<^verbatim>\<open>__socket\<close> is \<^verbatim>\<open>null\<close>, a connection promise that has not resolved yet, or a promise
  resolved with the socket (of which the code reads \<^verbatim>\<open>readyState\<close>).
\<close>

datatype sock = Null | Pending | Socket ready_state

record peer =
  connectionState :: conn_state
  iceServer :: string

record channel =
  ch_readyState :: chan_state

text \<open>The content of a signaling frame, and the frames written to the socket.\<close>

datatype rtc_content =
    CSdpOffer
  | CSdpAnswer json
  | CCandidate json
  | CReject
  | CPickup

datatype wire =
    JoinRoom "string option"
  | KeepAlive
  | SendMessage string json
  | Broadcast string json
  | Rtc "string option" rtc_content
  | RtcBroadcast string rtc_content

text \<open>Events given to the realtime callback \<^verbatim>\<open>cb\<close> and to a peer's callback.\<close>

datatype rt_event =
    EvSuccess
  | EvClose
  | EvReconnect nat
  | EvErrorMaxAttempts
  | EvError
  | EvMsg msg

datatype peer_event =
    PeConnectionStateChange string conn_state
  | PePickup string
  | PeNegotiationNeeded string

datatype effect =
    Send string wire
  | Callback rt_event
  | PeerCallback nat peer_event
  | ConnectAfter nat
  | SocketClose
  | ClearKeepAlive
  | StartKeepAlive
  | CreatePeer string string
  | SetRemoteDescription string json
  | CreateAnswer string
  | CreateOffer string
  | SetLocalDescription string
  | AddIceCandidate string json
  | AddTrack string nat
  | CreateDataChannel string string
  | CloseChannel string string
  | ClosePeer string
  | SetNegotiationHandler string
  | Request nat string "string option"

datatype error =
    NoRealtimeConnection
  | NoPeerConnection
  | NoRecipient
  | RecipientRequired
  | NotJoined string
  | MediaInsecure
  | DuplicateChannel string
  | NotOpen
  | GroupRequired
  | GroupType
  | TypeError
  | QueryFailed
  | InvalidUserId

text \<open>
  The closure stored in \<^verbatim>\<open>__caller_ringing[recipient]\<close> by \<^verbatim>\<open>connectRTC\<close>: it keeps the
  recipient and the callback of that call.
\<close>

record ringing =
  r_recipient :: string
  r_callback :: nat

record state =
  reconnectAttempts :: nat
  roomList :: "(string \<times> (string \<times> string option list) list) list"
  roomPending :: "(string \<times> nat) list"
  keepAliveInterval :: bool
  rtcCandidates :: "(string \<times> json list) list"
  rtcSdpOffer :: "(string \<times> json list) list"
  socket :: sock
  socket_room :: "string option"
  peerConnection :: "(string \<times> peer) list"
  dataChannel :: "(string \<times> (string \<times> channel) list) list"
  mediaStream :: "nat list option"
  peerCallbacks :: "(string \<times> nat) list"
  caller_ringing :: "(string \<times> ringing) list"
  receiver_ringing :: "(string \<times> bool) list"
  receivedDataChannelList :: "json option"
  requests :: "(nat \<times> string \<times> string option) list"
  next_request :: nat
  trace :: "effect list"

text \<open>
  What the layer takes from its host and from the rest of the SDK: the session's token
  (\<^verbatim>\<open>this.session.accessToken.jwtToken\<close>; the session is there), the profile's user id, the user id validator
  (\<^verbatim>\<open>validator.UserId\<close>, which throws on a string that is not a user id), the decoder of
  an inbound frame (\<open>None\<close> when \<^verbatim>\<open>decodeURI\<close> or \<^verbatim>\<open>JSON.parse\<close> throws), whether the page is
  on localhost or https, and the tracks \<^verbatim>\<open>getUserMedia\<close> returns. Calls into the host
  (\<^verbatim>\<open>socket.send\<close>, the peer connection's methods, \<^verbatim>\<open>getUserMedia\<close>) are recorded in the
  trace and taken to succeed.
\<close>

record env =
  jwtToken :: string
  own_user_id :: string
  valid_UserId :: "string \<Rightarrow> bool"
  parse_frame :: "string \<Rightarrow> frame option"
  secure_origin :: bool
  getUserMedia :: "bool \<Rightarrow> bool \<Rightarrow> nat list"

definition emit :: "effect \<Rightarrow> state \<Rightarrow> state" where
  "emit e st = st\<lparr>trace := trace st @ [e]\<rparr>"

definition initial :: state where
  "initial = \<lparr>reconnectAttempts = 0, roomList = [], roomPending = [],
     keepAliveInterval = False, rtcCandidates = [], rtcSdpOffer = [], socket = Null,
     socket_room = None, peerConnection = [], dataChannel = [], mediaStream = None,
     peerCallbacks = [], caller_ringing = [], receiver_ringing = [],
     receivedDataChannelList = None, requests = [], next_request = 0, trace = []\<rparr>"

section \<open>Session: close, reconnect with backoff\<close>

text \<open>
  \<^verbatim>\<open>closeRealtime\<close> is an async function whose first statement awaits \<^verbatim>\<open>__socket\<close>. The
  statements after it run with the socket that await gave: at once when
  \<^verbatim>\<open>__socket\<close> was \<^verbatim>\<open>null\<close>, after the calling handler has finished when it was a resolved
  promise, and not before the connection opens when it was pending. \<open>closeRealtime_rest\<close>
  is that remainder, given the awaited socket.
\<close>

definition closeRealtime_rest :: "sock \<Rightarrow> state \<Rightarrow> state" where
  "closeRealtime_rest awaited st =
     (let st1 = (if keepAliveInterval st
                 then emit ClearKeepAlive (st\<lparr>keepAliveInterval := False\<rparr>) else st);
          st2 = (if awaited \<noteq> Null then emit SocketClose st1 else st1)
      in st2\<lparr>socket := Null, socket_room := None\<rparr>)"

definition maxAttempts :: nat where
  "maxAttempts = 10"

text \<open>\<^verbatim>\<open>Math.min(1000 * (2 ** reconnectAttempts), 30000)\<close>\<close>

definition reconnect_delay :: "nat \<Rightarrow> nat" where
  "reconnect_delay attempts = min (1000 * 2 ^ attempts) 30000"

text \<open>
  \<^verbatim>\<open>connectRealtime(cb, delay)\<close> as the close handler calls it: \<^verbatim>\<open>reconnectAttempts\<close> is
  not zero there, so a new connection promise replaces \<^verbatim>\<open>__socket\<close> and the connection is
  made after \<open>delay\<close> milliseconds. Otherwise the existing promise is returned.
\<close>

definition connectRealtime :: "nat \<Rightarrow> state \<Rightarrow> state" where
  "connectRealtime delay st =
     (if reconnectAttempts st \<noteq> 0 \<or> socket st = Null
      then emit (ConnectAfter delay) (st\<lparr>socket := Pending\<rparr>)
      else st)"

text \<open>
  \<^verbatim>\<open>socket.onclose\<close>. The calls of \<^verbatim>\<open>closeRealtime\<close> are placed where their remainder runs:
  before the rest of the handler when \<^verbatim>\<open>__socket\<close> was \<^verbatim>\<open>null\<close>, after it when it was a
  resolved promise; on a pending promise they do not run in this step.
\<close>

definition onclose :: "bool \<Rightarrow> state \<Rightarrow> state" where
  "onclose wasClean st =
     (let awaited = socket st;
          now = (\<lambda>s. if awaited = Null then closeRealtime_rest awaited s else s);
          later = (\<lambda>s. case awaited of Socket r \<Rightarrow> closeRealtime_rest awaited s | _ \<Rightarrow> s)
      in if wasClean then later (now (emit (Callback EvClose) st))
         else
           let st1 = now st;
               st2 = st1\<lparr>reconnectAttempts := reconnectAttempts st1 + 1\<rparr>
           in if reconnectAttempts st2 < maxAttempts
              then
                let delay = reconnect_delay (reconnectAttempts st2);
                    st3 = emit (Callback (EvReconnect delay)) st2;
                    st4 = connectRealtime delay st3
                in later st4
              else
                let st3 = emit (Callback EvErrorMaxAttempts) st2
                in later (later (now st3)))"

text \<open>\<^verbatim>\<open>socket.onopen\<close>: the counter is reset, the joined room is resumed, the heartbeat starts.\<close>

definition onopen :: "env \<Rightarrow> state \<Rightarrow> state" where
  "onopen E st =
     (let st1 = emit (Callback EvSuccess) (st\<lparr>reconnectAttempts := 0\<rparr>);
          st2 = (if truthy_str (socket_room st1)
                 then emit (Send (jwtToken E) (JoinRoom (socket_room st1))) st1 else st1);
          st3 = emit StartKeepAlive (st2\<lparr>keepAliveInterval := True\<rparr>)
      in (if socket st3 = Pending then st3\<lparr>socket := Socket OPEN\<rparr> else st3))"

text \<open>The effects a step appended to the trace.\<close>

definition new_effects :: "state \<Rightarrow> state \<Rightarrow> effect list" where
  "new_effects st st' = drop (length (trace st)) (trace st')"

fun scheduled :: "effect list \<Rightarrow> nat list" where
  "scheduled [] = []"
| "scheduled (ConnectAfter d # es) = d # scheduled es"
| "scheduled (e # es) = scheduled es"

fun callbacks :: "effect list \<Rightarrow> rt_event list" where
  "callbacks [] = []"
| "callbacks (Callback ev # es) = ev # callbacks es"
| "callbacks (e # es) = callbacks es"

text \<open>\<open>k\<close> unexpected closes in a row, with no successful open in between.\<close>

fun unclean_closes :: "nat \<Rightarrow> state \<Rightarrow> state" where
  "unclean_closes 0 st = st"
| "unclean_closes (Suc k) st = onclose False (unclean_closes k st)"

section \<open>Sending a message, joining a room\<close>

text \<open>
  How a call of one of the layer's functions ends: it returns, it throws (an async
  function's promise rejects), or it is still waiting for the connection promise.
\<close>

datatype 'a outcome = Returned 'a | Thrown error | Waiting

definition emits :: "effect list \<Rightarrow> state \<Rightarrow> state" where
  "emits es st = st\<lparr>trace := trace st @ es\<rparr>"

text \<open>
  \<^verbatim>\<open>postRealtime(message, recipient)\<close>; \<open>message\<close> is the data \<^verbatim>\<open>extractFormData\<close> returned.
  \<^verbatim>\<open>Send\<close> records a call of \<^verbatim>\<open>socket.send\<close> with the session's token.
\<close>

definition postRealtime :: "env \<Rightarrow> json \<Rightarrow> string \<Rightarrow> state \<Rightarrow> unit outcome \<times> state" where
  "postRealtime E content recipient st =
     (case socket st of
        Pending \<Rightarrow> (Waiting, st)
      | Null \<Rightarrow> (Thrown NoRealtimeConnection, st)
      | Socket rs \<Rightarrow>
          if recipient = [] then (Thrown NoRecipient, st)
          else if rs = OPEN then
            (if valid_UserId E recipient
             then (Returned (), emit (Send (jwtToken E) (SendMessage recipient content)) st)
             else if socket_room st \<noteq> Some recipient then (Thrown (NotJoined recipient), st)
             else (Returned (), emit (Send (jwtToken E) (Broadcast recipient content)) st))
          else (Thrown NotOpen, st))"

text \<open>\<^verbatim>\<open>joinRealtime({ group })\<close>; \<open>None\<close> is \<^verbatim>\<open>null\<close>, the default of a missing group.\<close>

definition joinRealtime :: "env \<Rightarrow> string option \<Rightarrow> state \<Rightarrow> unit outcome \<times> state" where
  "joinRealtime E grp st =
     (case socket st of
        Pending \<Rightarrow> (Waiting, st)
      | Null \<Rightarrow> (Thrown NoRealtimeConnection, st)
      | Socket rs \<Rightarrow>
          if \<not> truthy_str grp \<and> \<not> truthy_str (socket_room st) then (Returned (), st)
          else (Returned (), (emit (Send (jwtToken E) (JoinRoom grp)) st)\<lparr>socket_room := grp\<rparr>))"

section \<open>Room membership: queries and notices\<close>

type_synonym members = "(string \<times> string option list) list"

text \<open>
  The three statements that track a connection id, in \<^verbatim>\<open>getRealtimeUsers\<close> and in the join
  notice: create the group's object if missing, create the user's array with the id if
  missing, otherwise push the id unless the array includes it.
\<close>

definition track_connection ::
  "string \<Rightarrow> string \<Rightarrow> string option \<Rightarrow> (string \<times> members) list \<Rightarrow> (string \<times> members) list" where
  "track_connection g u c rl =
     (case map_of rl g of
        None \<Rightarrow> AList.update g [(u, [c])] rl
      | Some us \<Rightarrow>
          (case map_of us u of
             None \<Rightarrow> AList.update g (AList.update u [c] us) rl
           | Some cs \<Rightarrow>
               if c \<in> set cs then rl
               else AList.update g (AList.update u (cs @ [c]) us) rl))"

text \<open>
  \<^verbatim>\<open>getRealtimeUsers({ group, user_id })\<close> up to the request: promises are numbered, the
  number returned is the promise the caller gets. \<open>requests\<close> keeps, for every request
  that has not settled, the group and filter it was made with.
\<close>

definition getRealtimeUsers ::
  "env \<Rightarrow> string \<Rightarrow> string option \<Rightarrow> state \<Rightarrow> nat outcome \<times> state" where
  "getRealtimeUsers E grp user_id st =
     (if (case user_id of None \<Rightarrow> False | Some u \<Rightarrow> \<not> valid_UserId E u)
      then (Thrown InvalidUserId, st)
      else if grp = [] then (Thrown GroupRequired, st)
      else
        (case (if truthy_str user_id then None else map_of (roomPending st) grp) of
           Some p \<Rightarrow> (Returned p, st)
         | None \<Rightarrow>
             let n = next_request st;
                 st1 = emit (Request n grp user_id)
                         (st\<lparr>requests := AList.update n (grp, user_id) (requests st),
                             next_request := Suc n\<rparr>);
                 st2 = (if \<not> truthy_str user_id \<and> map_of (roomPending st1) grp = None
                        then st1\<lparr>roomPending := AList.update grp n (roomPending st1)\<rparr>
                        else st1)
             in (Returned n, st2)))"

text \<open>
  The request's \<^verbatim>\<open>then\<close> and \<^verbatim>\<open>finally\<close> callbacks, when request \<open>n\<close> settles: with the list
  of (user id, connection id) entries of the response (the user id is the part of
  \<^verbatim>\<open>v.uid\<close> after the \<^verbatim>\<open>#\<close>), or with \<open>None\<close> when the request failed. The \<^verbatim>\<open>finally\<close>
  callback deletes the group's entry of \<^verbatim>\<open>__roomPending\<close> whatever the request was.
\<close>

definition settle_request :: "nat \<Rightarrow> (string \<times> string) list option \<Rightarrow> state \<Rightarrow> state" where
  "settle_request n answer st =
     (case map_of (requests st) n of
        None \<Rightarrow> st
      | Some (g, user_id) \<Rightarrow>
          let st1 = (case answer of
                       None \<Rightarrow> st
                     | Some entries \<Rightarrow>
                         if truthy_str user_id then st
                         else st\<lparr>roomList :=
                                foldl (\<lambda>rl (u, c). track_connection g u (Some c) rl)
                                  (roomList st) entries\<rparr>)
          in st1\<lparr>roomPending := AList.delete g (roomPending st1),
                 requests := AList.delete n (requests st1)\<rparr>)"

text \<open>Classification of a parsed frame and the message object given to the callback.\<close>

definition classify :: "frame \<Rightarrow> msg_type" where
  "classify d =
     (if truthy_opt (f_message d) then TMessage
      else if truthy_opt (f_private d) then TPrivate
      else if truthy_opt (f_notice d) then TNotice
      else if truthy_opt (f_rtc d) then TRtc
      else TMessage)"

text \<open>\<^verbatim>\<open>data?.['#rtc'] || data?.['#message'] || data?.['#private'] || data?.['#notice'] || null\<close>\<close>

definition payload :: "frame \<Rightarrow> json" where
  "payload d =
     (if truthy_opt (f_rtc d) then the (f_rtc d)
      else if truthy_opt (f_message d) then the (f_message d)
      else if truthy_opt (f_private d) then the (f_private d)
      else if truthy_opt (f_notice d) then the (f_notice d)
      else JNull)"

definition make_msg :: "frame \<Rightarrow> msg" where
  "make_msg d =
     \<lparr>msg_type = classify d, message = payload d,
      sender = (if truthy_str (f_user_id d) then f_user_id d else None),
      sender_cid = (if truthy_str (f_scid d) then Some (''scid:'' @ the (f_scid d)) else None),
      sender_rid = (if truthy_str (f_srid d) then f_srid d else None),
      receiveRTC_handle = None\<rparr>"

fun starts_with :: "string \<Rightarrow> string \<Rightarrow> bool" where
  "starts_with s [] = True"
| "starts_with [] (c # p) = False"
| "starts_with (x # s) (c # p) = (x = c \<and> starts_with s p)"

fun includes_str :: "string \<Rightarrow> string \<Rightarrow> bool" where
  "includes_str [] p = (p = [])"
| "includes_str (x # s) p = (starts_with (x # s) p \<or> includes_str s p)"

text \<open>
  \<^verbatim>\<open>msg.message.includes(text)\<close>: a string and an array have the method, any other value
  makes the call a TypeError.
\<close>

fun has_includes :: "json \<Rightarrow> bool" where
  "has_includes (JStr s) = True"
| "has_includes (JArr xs) = True"
| "has_includes _ = False"

fun js_includes :: "json \<Rightarrow> string \<Rightarrow> bool" where
  "js_includes (JStr s) p = includes_str s p"
| "js_includes (JArr xs) p = (JStr p \<in> set xs)"
| "js_includes _ p = False"

text \<open>
  \<^verbatim>\<open>if (__roomPending[room]) await __roomPending[room]\<close>: the handler continues when the
  query in flight has settled, that is after its callbacks have run; it throws when the
  query failed. \<open>answer\<close> is how that query settles.
\<close>

definition await_pending ::
  "string \<Rightarrow> (string \<times> string) list option \<Rightarrow> state \<Rightarrow> unit outcome \<times> state" where
  "await_pending room answer st =
     (case map_of (roomPending st) room of
        None \<Rightarrow> (Returned (), st)
      | Some q \<Rightarrow>
          (if answer = None then (Thrown QueryFailed, settle_request q answer st)
           else (Returned (), settle_request q answer st)))"

text \<open>
  The leave and the join branch of the notice handling, after the await. The result
  says whether the handler goes on to the callback (\<open>True\<close>) or returns (\<open>False\<close>).
\<close>

definition notice_left :: "string \<Rightarrow> msg \<Rightarrow> state \<Rightarrow> bool \<times> state" where
  "notice_left room m st =
     (let u = key_of (sender m) in
      case map_of (roomList st) room of
        None \<Rightarrow> (True, st)
      | Some us \<Rightarrow>
          (case map_of us u of
             None \<Rightarrow> (True, st)
           | Some cs \<Rightarrow>
               let cs' = filter (\<lambda>v. v \<noteq> sender_cid m) cs in
               if cs' = []
               then (True, st\<lparr>roomList := AList.update room (AList.delete u us) (roomList st)\<rparr>)
               else (False,
                     st\<lparr>roomList := AList.update room (AList.update u cs' us) (roomList st)\<rparr>)))"

definition tracked :: "string \<Rightarrow> string \<Rightarrow> state \<Rightarrow> bool" where
  "tracked room u st =
     (case map_of (roomList st) room of None \<Rightarrow> False | Some us \<Rightarrow> map_of us u \<noteq> None)"

definition notice_joined :: "string \<Rightarrow> msg \<Rightarrow> state \<Rightarrow> bool \<times> state" where
  "notice_joined room m st =
     (let u = key_of (sender m) in
      (\<not> tracked room u st,
       st\<lparr>roomList := track_connection room u (sender_cid m) (roomList st)\<rparr>))"

definition on_notice ::
  "msg \<Rightarrow> (string \<times> string) list option \<Rightarrow> state \<Rightarrow> bool outcome \<times> state" where
  "on_notice m answer st =
     (case socket_room st of
        None \<Rightarrow> (Returned True, st)
      | Some room \<Rightarrow>
          if room = [] then (Returned True, st)
          else if \<not> has_includes (message m) then (Thrown TypeError, st)
          else if js_includes (message m) ''has left the message group.''
                  \<or> js_includes (message m) ''has been disconnected.''
          then (case await_pending room answer st of
                  (Returned x, st1) \<Rightarrow>
                    (Returned (fst (notice_left room m st1)), snd (notice_left room m st1))
                | (Thrown e, st1) \<Rightarrow> (Thrown e, st1)
                | (Waiting, st1) \<Rightarrow> (Waiting, st1))
          else if js_includes (message m) ''has joined the message group.''
          then (case await_pending room answer st of
                  (Returned x, st1) \<Rightarrow>
                    (Returned (fst (notice_joined room m st1)), snd (notice_joined room m st1))
                | (Thrown e, st1) \<Rightarrow> (Thrown e, st1)
                | (Waiting, st1) \<Rightarrow> (Waiting, st1))
          else (Returned True, st))"

section \<open>Signaling\<close>

text \<open>
  \<^verbatim>\<open>closeRTC({ recipient })\<close>. The two buffers are deleted before the check of the
  recipient. Every channel that is not closed is closed, in the order of
  \<^verbatim>\<open>Object.values\<close>; the peer connection is closed unless it is closed already; its
  callback gets one \<^verbatim>\<open>connectionstatechange\<close> event with the state read after the close.
\<close>

definition closeRTC :: "string option \<Rightarrow> state \<Rightarrow> unit outcome \<times> state" where
  "closeRTC recipient st =
     (let k = key_of recipient;
          st1 = st\<lparr>rtcSdpOffer := AList.delete k (rtcSdpOffer st),
                   rtcCandidates := AList.delete k (rtcCandidates st)\<rparr>
      in if \<not> truthy_str recipient then (Thrown RecipientRequired, st1)
         else
           let chans = (case map_of (dataChannel st1) k of None \<Rightarrow> [] | Some cs \<Rightarrow> cs);
               st2 = emits (map (\<lambda>(l, ch). CloseChannel k l)
                              (filter (\<lambda>(l, ch). ch_readyState ch \<noteq> ChClosed) chans)) st1;
               st3 = st2\<lparr>dataChannel := AList.delete k (dataChannel st2)\<rparr>
           in case map_of (peerConnection st3) k of
                None \<Rightarrow> (Returned (), st3\<lparr>peerConnection := AList.delete k (peerConnection st3)\<rparr>)
              | Some pc \<Rightarrow>
                  let st4 = (if connectionState pc \<noteq> CsClosed
                             then emit (ClosePeer k)
                                    (st3\<lparr>peerConnection :=
                                          AList.update k (pc\<lparr>connectionState := CsClosed\<rparr>)
                                            (peerConnection st3)\<rparr>)
                             else st3)
                  in case map_of (peerCallbacks st4) k of
                       None \<Rightarrow> (Thrown TypeError, st4)
                     | Some c \<Rightarrow>
                         let st5 = emit (PeerCallback c (PeConnectionStateChange k CsClosed)) st4
                         in (Returned (),
                             st5\<lparr>peerConnection := AList.delete k (peerConnection st5)\<rparr>))"

text \<open>
  \<^verbatim>\<open>sdpanswer(msg, sdpoffer)\<close>: the remote offer is applied, an answer is created, set as
  local description and sent to the sender. The answer frame is recorded with the offer
  it answers.
\<close>

definition sdpanswer :: "env \<Rightarrow> string option \<Rightarrow> json \<Rightarrow> state \<Rightarrow> unit outcome \<times> state" where
  "sdpanswer E frm sdpoffer st =
     (let k = key_of frm in
      case socket st of
        Pending \<Rightarrow> (Waiting, st)
      | Null \<Rightarrow> (Thrown NoRealtimeConnection, st)
      | Socket rs \<Rightarrow>
          (case map_of (peerConnection st) k of
             None \<Rightarrow> (Thrown NoPeerConnection, st)
           | Some pc \<Rightarrow>
               (Returned (),
                emits [SetRemoteDescription k sdpoffer, CreateAnswer k, SetLocalDescription k,
                       Send (jwtToken E) (Rtc frm (CSdpAnswer sdpoffer))] st)))"

definition addIceCandidate :: "string option \<Rightarrow> json \<Rightarrow> state \<Rightarrow> unit outcome \<times> state" where
  "addIceCandidate frm candidate st =
     (let k = key_of frm in
      case map_of (peerConnection st) k of
        None \<Rightarrow> (Thrown NoPeerConnection, st)
      | Some pc \<Rightarrow> (Returned (), emit (AddIceCandidate k candidate) st))"

text \<open>
  \<^verbatim>\<open>Promise.all\<close> over the calls started by a loop: every call is started, in the order of
  the loop, and the first error is the error of the whole. The calls run interleaved
  at their awaits; the trace has them one after the other, in the order they were
  started, which is the order in which they reach each method of the peer connection.
\<close>

fun sdpanswer_all :: "env \<Rightarrow> string option \<Rightarrow> json list \<Rightarrow> state \<Rightarrow> unit outcome \<times> state" where
  "sdpanswer_all E frm [] st = (Returned (), st)"
| "sdpanswer_all E frm (x # xs) st =
     (case sdpanswer E frm x st of
        (Returned u, st1) \<Rightarrow> sdpanswer_all E frm xs st1
      | (r, st1) \<Rightarrow> (r, snd (sdpanswer_all E frm xs st1)))"

fun addIceCandidate_all :: "string option \<Rightarrow> json list \<Rightarrow> state \<Rightarrow> unit outcome \<times> state" where
  "addIceCandidate_all frm [] st = (Returned (), st)"
| "addIceCandidate_all frm (x # xs) st =
     (case addIceCandidate frm x st of
        (Returned u, st1) \<Rightarrow> addIceCandidate_all frm xs st1
      | (r, st1) \<Rightarrow> (r, snd (addIceCandidate_all frm xs st1)))"

text \<open>
  The \<^verbatim>\<open>mediaStream\<close> parameter: a \<^verbatim>\<open>MediaStream\<close> object (its tracks) or the constraints
  \<^verbatim>\<open>{ video, audio }\<close>.
\<close>

datatype media = MediaStreamObject "nat list" | Constraints bool bool

definition media_refused :: "env \<Rightarrow> media option \<Rightarrow> bool" where
  "media_refused E m =
     (case m of
        Some (Constraints video audio) \<Rightarrow> (video \<or> audio) \<and> \<not> secure_origin E
      | _ \<Rightarrow> False)"

definition attach_media :: "env \<Rightarrow> string \<Rightarrow> media option \<Rightarrow> state \<Rightarrow> state" where
  "attach_media E k m st =
     (case m of
        None \<Rightarrow> st
      | Some x \<Rightarrow>
          let st1 = (case x of
                       MediaStreamObject tracks \<Rightarrow> st\<lparr>mediaStream := Some tracks\<rparr>
                     | Constraints video audio \<Rightarrow>
                         if video \<or> audio
                         then st\<lparr>mediaStream := Some (getUserMedia E video audio)\<rparr>
                         else st)
          in (case mediaStream st1 of
                None \<Rightarrow> st1
              | Some tracks \<Rightarrow> emits (map (AddTrack k) tracks) st1))"

definition default_ice :: string where
  "default_ice = ''stun:stun.skapi.com:3468''"

definition ensure_peer :: "string \<Rightarrow> string \<Rightarrow> state \<Rightarrow> state" where
  "ensure_peer k ice st =
     (case map_of (peerConnection st) k of
        Some pc \<Rightarrow> st
      | None \<Rightarrow>
          emit (CreatePeer k ice)
            (st\<lparr>peerConnection :=
                  AList.update k \<lparr>connectionState = CsNew, iceServer = ice\<rparr>
                    (peerConnection st)\<rparr>))"

definition ensure_channels :: "string \<Rightarrow> state \<Rightarrow> state" where
  "ensure_channels k st =
     (case map_of (dataChannel st) k of
        Some cs \<Rightarrow> st
      | None \<Rightarrow> st\<lparr>dataChannel := AList.update k [] (dataChannel st)\<rparr>)"

text \<open>
  The setup both \<^verbatim>\<open>receiveRTC\<close> and \<^verbatim>\<open>connectRTC\<close> run for the peer \<open>k\<close>: the peer
  connection is created unless there is one, the media tracks are attached, the
  callback is registered, the peer's channel map is created unless there is one.
\<close>

definition setup_peer :: "env \<Rightarrow> string \<Rightarrow> string option \<Rightarrow> media option \<Rightarrow> nat \<Rightarrow> state \<Rightarrow> state" where
  "setup_peer E k ice m cb st =
     (let st1 = ensure_peer k (case ice of None \<Rightarrow> default_ice | Some i \<Rightarrow> i) st;
          st2 = attach_media E k m st1
      in ensure_channels k (st2\<lparr>peerCallbacks := AList.update k cb (peerCallbacks st2)\<rparr>))"

record rtc_params =
  p_ice :: "string option"
  p_reject :: bool
  p_mediaStream :: "media option"

text \<open>
  The function \<^verbatim>\<open>receiveRTC(msg, rtc)\<close> returns, called with its parameters and the
  callback \<open>cb\<close> (callbacks are numbered; a missing callback is replaced by a no-op
  function, one more callback). It runs in four parts: the checks and the reject
  branch; the setup of the peer connection; the buffered offers and, inside the same
  \<^verbatim>\<open>if\<close>, the buffered candidates; the offer of the frame the handle came with, then the
  pickup signal.
\<close>

definition flush_buffers :: "env \<Rightarrow> string option \<Rightarrow> state \<Rightarrow> unit outcome \<times> state" where
  "flush_buffers E frm st =
     (let k = key_of frm in
      case map_of (rtcSdpOffer st) k of
        None \<Rightarrow> (Returned (), st)
      | Some [] \<Rightarrow> (Returned (), st)
      | Some offers \<Rightarrow>
          (case sdpanswer_all E frm offers st of
             (Returned u, st1) \<Rightarrow>
               let st2 = st1\<lparr>rtcSdpOffer := AList.delete k (rtcSdpOffer st1)\<rparr> in
               (case map_of (rtcCandidates st2) k of
                  None \<Rightarrow> (Returned (), st2)
                | Some [] \<Rightarrow> (Returned (), st2)
                | Some candidates \<Rightarrow>
                    (case addIceCandidate_all frm candidates st2 of
                       (Returned u, st3) \<Rightarrow>
                         (Returned (),
                          st3\<lparr>rtcCandidates := AList.delete k (rtcCandidates st3)\<rparr>)
                     | (r, st3) \<Rightarrow> (r, st3)))
           | (r, st1) \<Rightarrow> (r, st1)))"

definition receiveRTC ::
  "env \<Rightarrow> handle \<Rightarrow> rtc_params \<Rightarrow> nat \<Rightarrow> state \<Rightarrow> unit outcome \<times> state" where
  "receiveRTC E h params cb st =
     (let frm = h_sender h; k = key_of frm in
      if media_refused E (p_mediaStream params) then (Thrown MediaInsecure, st)
      else
        (case socket st of
           Pending \<Rightarrow> (Waiting, st)
         | Null \<Rightarrow> (Thrown NoRealtimeConnection, st)
         | Socket rs \<Rightarrow>
             if p_reject params
             then (Returned (), emit (Send (jwtToken E) (Rtc frm CReject)) st)
             else
               let st3 = setup_peer E k (p_ice params) (p_mediaStream params) cb st
               in (case flush_buffers E frm st3 of
                     (Returned u, st4) \<Rightarrow>
                       (case (if truthy_opt (jget (h_rtc h) ''sdpoffer'')
                              then sdpanswer E frm (the (jget (h_rtc h) ''sdpoffer'')) st4
                              else (Returned (), st4)) of
                          (Returned u, st5) \<Rightarrow>
                            let st6 = emits [Send (jwtToken E) (Rtc frm CPickup),
                                             PeerCallback cb (PePickup k)] st5
                            in (Returned (),
                                st6\<lparr>receiver_ringing := AList.delete k (receiver_ringing st6)\<rparr>)
                        | (r, st5) \<Rightarrow> (r, st5))
                   | (r, st4) \<Rightarrow> (r, st4))))"

text \<open>
  \<^verbatim>\<open>sendOffer(recipient)\<close>: the offer goes to a user id, or to the joined room when the
  recipient is not a user id. Without a socket the \<^verbatim>\<open>send\<close> inside the \<^verbatim>\<open>try\<close> is a
  TypeError, which the \<^verbatim>\<open>catch\<close> takes like the validator's error.
\<close>

definition sendOffer :: "env \<Rightarrow> string \<Rightarrow> state \<Rightarrow> unit outcome \<times> state" where
  "sendOffer E recipient st =
     (case socket st of
        Pending \<Rightarrow> (Waiting, st)
      | s \<Rightarrow>
          (case map_of (peerConnection st) recipient of
             None \<Rightarrow> (Thrown TypeError, st)
           | Some pc \<Rightarrow>
               let st1 = emits [CreateOffer recipient, SetLocalDescription recipient] st in
               if valid_UserId E recipient \<and> s \<noteq> Null
               then (Returned (), emit (Send (jwtToken E) (Rtc (Some recipient) CSdpOffer)) st1)
               else if socket_room st1 \<noteq> Some recipient
               then (Thrown (NotJoined recipient), st1)
               else if s = Null then (Thrown TypeError, st1)
               else (Returned (),
                     emit (Send (jwtToken E) (RtcBroadcast recipient CSdpOffer)) st1)))"

text \<open>
  The loop of \<^verbatim>\<open>connectRTC\<close> over \<^verbatim>\<open>dataChannelOptions\<close>, given each option's \<^verbatim>\<open>protocol\<close>
  (\<open>None\<close> when it is missing): the label is the protocol or \<^verbatim>\<open>'default'\<close>; a label that is
  a key of \<^verbatim>\<open>__dataChannel[recipient]\<close> throws, the channels created before stay.
\<close>

definition label_of :: "string option \<Rightarrow> string" where
  "label_of protocol = (if truthy_str protocol then the protocol else ''default'')"

fun create_channels :: "string \<Rightarrow> string option list \<Rightarrow> state \<Rightarrow> unit outcome \<times> state" where
  "create_channels k [] st = (Returned (), st)"
| "create_channels k (p # ps) st =
     (let label = label_of p;
          chans = (case map_of (dataChannel st) k of None \<Rightarrow> [] | Some cs \<Rightarrow> cs)
      in if label \<in> set (map fst chans) then (Thrown (DuplicateChannel label), st)
         else create_channels k ps
                (emit (CreateDataChannel k label)
                   (st\<lparr>dataChannel :=
                         AList.update k (AList.update label \<lparr>ch_readyState = ChConnecting\<rparr> chans)
                           (dataChannel st)\<rparr>)))"

record rtc_call =
  c_recipient :: string
  c_ice :: "string option"
  c_mediaStream :: "media option"
  c_dataChannelOptions :: "string option list option"

text \<open>
  \<^verbatim>\<open>connectRTC(params, callback)\<close>. When the socket is not open the function returns
  without doing anything.
\<close>

definition connectRTC :: "env \<Rightarrow> rtc_call \<Rightarrow> nat \<Rightarrow> state \<Rightarrow> unit outcome \<times> state" where
  "connectRTC E params callback st =
     (case socket st of
        Pending \<Rightarrow> (Waiting, st)
      | Null \<Rightarrow> (Thrown NoRealtimeConnection, st)
      | Socket rs \<Rightarrow>
          if media_refused E (c_mediaStream params) then (Thrown MediaInsecure, st)
          else if rs \<noteq> OPEN then (Returned (), st)
          else
            let recipient = c_recipient params;
                options = (case c_dataChannelOptions params of
                             None \<Rightarrow> [Some ''default''] | Some os \<Rightarrow> os);
                st3 = setup_peer E recipient (c_ice params) (c_mediaStream params) callback st
            in (case create_channels recipient options st3 of
                  (Returned u, st4) \<Rightarrow>
                    (case sendOffer E recipient st4 of
                       (Returned u, st5) \<Rightarrow>
                         (Returned (),
                          st5\<lparr>caller_ringing :=
                                AList.update recipient
                                  \<lparr>r_recipient = recipient, r_callback = callback\<rparr>
                                  (caller_ringing st5)\<rparr>)
                     | (r, st5) \<Rightarrow> (r, st5))
                | (r, st4) \<Rightarrow> (r, st4)))"

section \<open>The message handler\<close>

text \<open>
  The closure \<^verbatim>\<open>__caller_ringing[sender]\<close> called on a pickup signal: it installs the
  renegotiation handler on the peer connection and gives the call's callback the
  pickup event.
\<close>

definition on_pickup :: "string \<Rightarrow> state \<Rightarrow> unit outcome \<times> state" where
  "on_pickup k st =
     (case map_of (caller_ringing st) k of
        None \<Rightarrow> (Returned (), st)
      | Some r \<Rightarrow>
          (case map_of (peerConnection st) k of
             None \<Rightarrow> (Thrown TypeError, st)
           | Some pc \<Rightarrow>
               let st1 = emits [SetNegotiationHandler k,
                                PeerCallback (r_callback r) (PePickup k)] st
               in (Returned (), st1\<lparr>caller_ringing := AList.delete k (caller_ringing st1)\<rparr>)))"

text \<open>
  The candidate and the offer branch of a signaling frame. Without a peer connection
  for the sender the signal is appended to the sender's buffer; the first buffered
  offer of a sender that is not ringing gets the \<^verbatim>\<open>receiveRTC\<close> handle. With a peer
  connection the candidate is added at once, and \<^verbatim>\<open>sdpanswer\<close> is started: its
  statements after the first await run later (\<open>deferred\<close>).
\<close>

definition on_candidate :: "msg \<Rightarrow> json \<Rightarrow> state \<Rightarrow> state" where
  "on_candidate m candidate st =
     (let k = key_of (sender m) in
      case map_of (peerConnection st) k of
        Some pc \<Rightarrow> snd (addIceCandidate (sender m) candidate st)
      | None \<Rightarrow>
          let old = (case map_of (rtcCandidates st) k of None \<Rightarrow> [] | Some cs \<Rightarrow> cs)
          in st\<lparr>rtcCandidates := AList.update k (old @ [candidate]) (rtcCandidates st)\<rparr>)"

definition on_sdpoffer :: "msg \<Rightarrow> json \<Rightarrow> json \<Rightarrow> state \<Rightarrow> msg \<times> state" where
  "on_sdpoffer m rtc sdpoffer st =
     (let k = key_of (sender m) in
      case map_of (peerConnection st) k of
        Some pc \<Rightarrow> (m, st)
      | None \<Rightarrow>
          let old = (case map_of (rtcSdpOffer st) k of None \<Rightarrow> [] | Some os \<Rightarrow> os);
              st1 = (if truthy_opt (jget rtc ''dataChannels'')
                     then st\<lparr>receivedDataChannelList := jget rtc ''dataChannels''\<rparr> else st);
              ringing = (map_of (receiver_ringing st1) k = Some True);
              m1 = (if ringing then m
                    else m\<lparr>receiveRTC_handle := Some \<lparr>h_sender = sender m, h_rtc = rtc\<rparr>\<rparr>);
              st2 = (if ringing then st1
                     else st1\<lparr>receiver_ringing := AList.update k True (receiver_ringing st1)\<rparr>)
          in (m1, st2\<lparr>rtcSdpOffer := AList.update k (old @ [sdpoffer]) (rtcSdpOffer st2)\<rparr>))"

text \<open>
  The branch for a frame of type \<^verbatim>\<open>rtc\<close>. The result is the message for the callback, or
  \<open>None\<close> when the handler returns before the callback.
\<close>

definition on_rtc :: "env \<Rightarrow> msg \<Rightarrow> state \<Rightarrow> msg option outcome \<times> state" where
  "on_rtc E m st =
     (let k = key_of (sender m); rtc = message m in
      if sender m = Some (own_user_id E) then (Returned (Some m), emit (Callback (EvMsg m)) st)
      else if truthy_opt (jget rtc ''reject'')
      then (case map_of (peerConnection st) k of
              None \<Rightarrow> (Returned None, st)
            | Some pc \<Rightarrow>
                (case closeRTC (sender m) st of
                   (Returned u, st1) \<Rightarrow> (Returned None, st1)
                 | (Thrown e, st1) \<Rightarrow> (Thrown e, st1)
                 | (Waiting, st1) \<Rightarrow> (Waiting, st1)))
      else
        let had_peer = (map_of (peerConnection st) k \<noteq> None);
            st1 = (if truthy_opt (jget rtc ''candidate'')
                   then on_candidate m (the (jget rtc ''candidate'')) st else st);
            offered = truthy_opt (jget rtc ''sdpoffer'');
            m2 = (if offered then fst (on_sdpoffer m rtc (the (jget rtc ''sdpoffer'')) st1) else m);
            st2 = (if offered then snd (on_sdpoffer m rtc (the (jget rtc ''sdpoffer'')) st1) else st1);
            deferred = (\<lambda>s. if offered \<and> had_peer
                            then snd (sdpanswer E (sender m) (the (jget rtc ''sdpoffer'')) s)
                            else s)
        in (case (if truthy_opt (jget rtc ''pickup'') then on_pickup k st2
                  else (Returned (), st2)) of
              (Returned u, st3) \<Rightarrow>
                if truthy_opt (jget rtc ''sdpanswer'')
                then (case map_of (peerConnection st3) k of
                        None \<Rightarrow> (Thrown TypeError, deferred st3)
                      | Some pc \<Rightarrow>
                          (Returned (Some m2),
                           emit (Callback (EvMsg m2))
                             (deferred
                                (emit (SetRemoteDescription k (the (jget rtc ''sdpanswer''))) st3))))
                else (Returned (Some m2), deferred (emit (Callback (EvMsg m2)) st3))
            | (Thrown e, st3) \<Rightarrow> (Thrown e, deferred st3)
            | (Waiting, st3) \<Rightarrow> (Waiting, st3)))"

text \<open>
  \<^verbatim>\<open>socket.onmessage\<close>, for the frame text \<open>raw\<close>. \<open>answer\<close> is how the membership query in
  flight settles, when the handler waits for one. The result is the message given to
  the callback, or \<open>None\<close> when the handler returned without calling it.
\<close>

definition onmessage ::
  "env \<Rightarrow> string \<Rightarrow> (string \<times> string) list option \<Rightarrow> state \<Rightarrow> msg option outcome \<times> state" where
  "onmessage E raw answer st =
     (case parse_frame E raw of
        None \<Rightarrow> (Returned None, st)
      | Some d \<Rightarrow>
          let m = make_msg d in
          if msg_type m = TNotice
          then (case on_notice m answer st of
                  (Returned True, st1) \<Rightarrow> (Returned (Some m), emit (Callback (EvMsg m)) st1)
                | (Returned False, st1) \<Rightarrow> (Returned None, st1)
                | (Thrown e, st1) \<Rightarrow> (Thrown e, st1)
                | (Waiting, st1) \<Rightarrow> (Waiting, st1))
          else if msg_type m = TRtc then on_rtc E m st
          else (Returned (Some m), emit (Callback (EvMsg m)) st))"

section \<open>Observations and examples\<close>

text \<open>What a trace says: the data channels created, the remote signals applied to a peer.\<close>

fun created :: "effect list \<Rightarrow> (string \<times> string) list" where
  "created [] = []"
| "created (CreateDataChannel k l # es) = (k, l) # created es"
| "created (e # es) = created es"

datatype signal = Offer json | Candidate json

fun applied :: "string \<Rightarrow> effect list \<Rightarrow> signal list" where
  "applied k [] = []"
| "applied k (SetRemoteDescription k' x # es) =
     (if k' = k then Offer x # applied k es else applied k es)"
| "applied k (AddIceCandidate k' x # es) =
     (if k' = k then Candidate x # applied k es else applied k es)"
| "applied k (e # es) = applied k es"

text \<open>The effects of \<^verbatim>\<open>sdpanswer\<close> for a list of offers, one after the other.\<close>

definition answers :: "env \<Rightarrow> string option \<Rightarrow> json list \<Rightarrow> effect list" where
  "answers E frm os =
     concat (map (\<lambda>x. [SetRemoteDescription (key_of frm) x, CreateAnswer (key_of frm),
                        SetLocalDescription (key_of frm),
                        Send (jwtToken E) (Rtc frm (CSdpAnswer x))]) os)"

definition channel_labels :: "string \<Rightarrow> state \<Rightarrow> string list" where
  "channel_labels k st =
     map fst (case map_of (dataChannel st) k of None \<Rightarrow> [] | Some cs \<Rightarrow> cs)"

definition open_channels :: "string \<Rightarrow> state \<Rightarrow> string list" where
  "open_channels k st =
     map fst (filter (\<lambda>(l, ch). ch_readyState ch \<noteq> ChClosed)
                (case map_of (dataChannel st) k of None \<Rightarrow> [] | Some cs \<Rightarrow> cs))"

definition requested_labels :: "rtc_call \<Rightarrow> string list" where
  "requested_labels params =
     map label_of (case c_dataChannelOptions params of
                     None \<Rightarrow> [Some ''default''] | Some os \<Rightarrow> os)"

text \<open>
  A small world for concrete runs: the user \<^verbatim>\<open>me\<close>, connected and in room \<^verbatim>\<open>R1\<close>, the
  user id \<^verbatim>\<open>U1\<close>, and frames the relay may deliver (named by their text).
\<close>

definition rtc_frame :: "string \<Rightarrow> (string \<times> json) list \<Rightarrow> frame" where
  "rtc_frame u kvs = \<lparr>f_message = None, f_private = None, f_notice = None,
     f_rtc = Some (JObj kvs), f_user_id = Some u, f_scid = Some ''c1'', f_srid = None\<rparr>"

definition notice_frame :: "string \<Rightarrow> string \<Rightarrow> string \<Rightarrow> frame" where
  "notice_frame u c text = \<lparr>f_message = None, f_private = None, f_notice = Some (JStr text),
     f_rtc = None, f_user_id = Some u, f_scid = Some c, f_srid = None\<rparr>"

definition example_env :: env where
  "example_env = \<lparr>jwtToken = ''t'', own_user_id = ''me'',
     valid_UserId = (\<lambda>s. s = ''U1'' \<or> s = ''me''),
     parse_frame = map_of [
        (''o1'', rtc_frame ''U1'' [(''sdpoffer'', JStr ''O1'')]),
        (''o2'', rtc_frame ''U1'' [(''sdpoffer'', JStr ''O2'')]),
        (''c1'', rtc_frame ''U1'' [(''candidate'', JStr ''C1'')]),
        (''c2'', rtc_frame ''U1'' [(''candidate'', JStr ''C2'')]),
        (''rj'', rtc_frame ''U1'' [(''reject'', JBool True)]),
        (''j1'', notice_frame ''U1'' ''a'' ''has joined the message group.''),
        (''j2'', notice_frame ''U1'' ''b'' ''has joined the message group.''),
        (''l1'', notice_frame ''U1'' ''a'' ''has left the message group.''),
        (''l2'', notice_frame ''U1'' ''b'' ''has been disconnected.'')],
     secure_origin = False, getUserMedia = (\<lambda>v a. [])\<rparr>"

definition open_state :: state where
  "open_state = initial\<lparr>socket := Socket OPEN, socket_room := Some ''R1''\<rparr>"

definition call_two :: rtc_call where
  "call_two = \<lparr>c_recipient = ''U1'', c_ice = None, c_mediaStream = None,
     c_dataChannelOptions = Some [Some ''chat'', Some ''file'']\<rparr>"

definition call_twice :: rtc_call where
  "call_twice = \<lparr>c_recipient = ''U1'', c_ice = None, c_mediaStream = None,
     c_dataChannelOptions = Some [Some ''chat'', Some ''chat'']\<rparr>"

text \<open>
  Two states of the example: \<open>calling_state\<close>, in which \<^verbatim>\<open>me\<close> has called \<^verbatim>\<open>U1\<close> with the
  data channels \<^verbatim>\<open>chat\<close> and \<^verbatim>\<open>file\<close>; and \<open>ringing_state\<close>, in which the offers \<^verbatim>\<open>O1\<close>,
  \<^verbatim>\<open>O2\<close> and then the candidates \<^verbatim>\<open>C1\<close>, \<^verbatim>\<open>C2\<close> of \<^verbatim>\<open>U1\<close> have arrived, in that order. The
  handle of that call is the one the callback got with the first offer.
\<close>

definition calling_state :: state where
  "calling_state = snd (connectRTC example_env call_two 3 open_state)"

definition ringing_state :: state where
  "ringing_state =
     snd (onmessage example_env ''c2'' None
       (snd (onmessage example_env ''c1'' None
         (snd (onmessage example_env ''o2'' None
           (snd (onmessage example_env ''o1'' None open_state)))))))"

definition first_offer_handle :: handle where
  "first_offer_handle = \<lparr>h_sender = Some ''U1'', h_rtc = JObj [(''sdpoffer'', JStr ''O1'')]\<rparr>"

definition accept :: rtc_params where
  "accept = \<lparr>p_ice = None, p_reject = False, p_mediaStream = None\<rparr>"


section \<open>Membership as the specification describes it\<close>











text \<open>Every tracked user has at least one connection id.\<close>

definition well_formed :: "(string \<times> members) list \<Rightarrow> bool" where
  "well_formed rl =
     (\<forall>g us u cs. map_of rl g = Some us \<and> map_of us u = Some cs \<longrightarrow> cs \<noteq> [])"



definition query_race :: "nat outcome \<times> state" where
  "query_race =
     (let s1 = snd (getRealtimeUsers example_env ''R1'' None open_state);
          s2 = snd (getRealtimeUsers example_env ''R1'' (Some ''U1'') s1);
          s3 = settle_request 1 (Some []) s2
      in getRealtimeUsers example_env ''R1'' None s3)"


section \<open>Properties of the session\<close>

lemma trace_emit: "trace (emit e st) = trace st @ [e]"
  by (simp add: emit_def)

lemma callbacks_append: "callbacks (xs @ ys) = callbacks xs @ callbacks ys"
  by (induction xs rule: callbacks.induct) simp_all

lemma scheduled_append: "scheduled (xs @ ys) = scheduled xs @ scheduled ys"
  by (induction xs rule: scheduled.induct) simp_all

lemma onclose_trace_ex: "\<exists>es. trace (onclose b st) = trace st @ es"
  by (cases "socket st")
     (simp_all add: onclose_def closeRealtime_rest_def connectRealtime_def emit_def Let_def)

lemma onclose_trace: "trace (onclose b st) = trace st @ new_effects st (onclose b st)"
  using onclose_trace_ex [of b st] by (auto simp: new_effects_def)

lemma onclose_attempts: "reconnectAttempts (onclose False st) = Suc (reconnectAttempts st)"
  by (cases "socket st")
     (simp_all add: onclose_def closeRealtime_rest_def connectRealtime_def emit_def Let_def)

lemma unclean_closes_attempts:
  "reconnectAttempts (unclean_closes k st) = reconnectAttempts st + k"
  by (induction k) (simp_all add: onclose_attempts)

lemma new_effects_append: "trace st' = trace st @ es \<Longrightarrow> new_effects st st' = es"
  by (simp add: new_effects_def)

lemma unclean_closes_trace_ex: "\<exists>es. trace (unclean_closes k st) = trace st @ es"
proof (induction k)
  case 0
  show ?case by simp
next
  case (Suc k)
  then obtain es where es: "trace (unclean_closes k st) = trace st @ es" by blast
  obtain fs where "trace (onclose False (unclean_closes k st)) = trace (unclean_closes k st) @ fs"
    using onclose_trace_ex by blast
  with es have "trace (unclean_closes (Suc k) st) = trace st @ (es @ fs)" by simp
  then show ?case by blast
qed

lemma new_effects_Suc:
  "new_effects st (unclean_closes (Suc k) st) =
     new_effects st (unclean_closes k st) @
     new_effects (unclean_closes k st) (unclean_closes (Suc k) st)"
proof -
  obtain es where es: "trace (unclean_closes k st) = trace st @ es"
    using unclean_closes_trace_ex by blast
  obtain fs where fs: "trace (onclose False (unclean_closes k st)) = trace (unclean_closes k st) @ fs"
    using onclose_trace_ex by blast
  have "trace (unclean_closes (Suc k) st) = trace st @ (es @ fs)" using es fs by simp
  then have "new_effects st (unclean_closes (Suc k) st) = es @ fs"
    by (rule new_effects_append)
  moreover have "new_effects st (unclean_closes k st) = es"
    using es by (rule new_effects_append)
  moreover have "new_effects (unclean_closes k st) (unclean_closes (Suc k) st) = fs"
    using fs by (simp add: new_effects_append)
  ultimately show ?thesis by simp
qed

lemma onclose_reconnect:
  assumes "Suc (reconnectAttempts st) < maxAttempts"
  shows "callbacks (new_effects st (onclose False st)) =
           [EvReconnect (reconnect_delay (Suc (reconnectAttempts st)))]"
    and "scheduled (new_effects st (onclose False st)) =
           [reconnect_delay (Suc (reconnectAttempts st))]"
  using assms
  by (cases "socket st"; simp add: onclose_def closeRealtime_rest_def connectRealtime_def
        emit_def Let_def new_effects_def)+

lemma onclose_terminal:
  assumes "\<not> Suc (reconnectAttempts st) < maxAttempts"
  shows "callbacks (new_effects st (onclose False st)) = [EvErrorMaxAttempts]"
    and "scheduled (new_effects st (onclose False st)) = []"
  using assms
  by (cases "socket st"; simp add: onclose_def closeRealtime_rest_def connectRealtime_def
        emit_def Let_def new_effects_def)+

lemma reconnect_delay_increasing:
  "reconnect_delay n < 30000 \<Longrightarrow> reconnect_delay n < reconnect_delay (Suc n)"
  by (simp add: reconnect_delay_def min_def split: if_splits)

lemma run_callbacks_before_terminal:
  assumes "reconnectAttempts st = 0" and "k < maxAttempts"
  shows "callbacks (new_effects st (unclean_closes k st)) =
           map (\<lambda>n. EvReconnect (reconnect_delay n)) [1..<Suc k]"
  using assms(2)
proof (induction k)
  case 0
  show ?case by (simp add: new_effects_def)
next
  case (Suc k)
  have att: "reconnectAttempts (unclean_closes k st) = k"
    using assms(1) by (simp add: unclean_closes_attempts)
  have one: "callbacks (new_effects (unclean_closes k st) (unclean_closes (Suc k) st)) =
          [EvReconnect (reconnect_delay (Suc k))]"
    using onclose_reconnect(1) [of "unclean_closes k st"] Suc.prems att by simp
  have ih: "callbacks (new_effects st (unclean_closes k st)) =
           map (\<lambda>n. EvReconnect (reconnect_delay n)) [1..<Suc k]"
    using Suc by simp
  have "[1..<Suc (Suc k)] = [1..<Suc k] @ [Suc k]" by simp
  then show ?case
    unfolding new_effects_Suc callbacks_append ih one by (simp del: upt_Suc)
qed

text \<open>
  C2. The \<open>n\<close>-th unexpected close in a row (no successful open in between, so that
  \<^verbatim>\<open>reconnectAttempts\<close> is \<open>n\<close> after the handler's increment), for \<open>0 < n < 10\<close>, schedules
  one reconnect after \<open>min (1000 * 2 ^ n) 30000\<close> milliseconds and gives the callback one
  reconnect event; the delay grows strictly with \<open>n\<close> as long as it is below the cap of
  30000; the tenth unexpected close gives the callback one terminal error event and
  schedules no reconnect, so that the whole run gives the callback nine reconnect
  events followed by exactly one error event.
\<close>

theorem reconnect_backoff_then_terminal_error:
  assumes "reconnectAttempts st = 0"
  shows "(\<forall>n. 0 < n \<and> n < maxAttempts \<longrightarrow>
            scheduled (new_effects (unclean_closes (n - 1) st) (unclean_closes n st)) =
              [min (1000 * 2 ^ n) 30000] \<and>
            callbacks (new_effects (unclean_closes (n - 1) st) (unclean_closes n st)) =
              [EvReconnect (min (1000 * 2 ^ n) 30000)]) \<and>
         (\<forall>n. reconnect_delay n < 30000 \<longrightarrow> reconnect_delay n < reconnect_delay (Suc n)) \<and>
         maxAttempts = 10 \<and>
         callbacks (new_effects (unclean_closes (maxAttempts - 1) st)
                                (unclean_closes maxAttempts st)) = [EvErrorMaxAttempts] \<and>
         scheduled (new_effects (unclean_closes (maxAttempts - 1) st)
                                (unclean_closes maxAttempts st)) = [] \<and>
         callbacks (new_effects st (unclean_closes maxAttempts st)) =
           map (\<lambda>n. EvReconnect (reconnect_delay n)) [1..<maxAttempts] @ [EvErrorMaxAttempts]"
proof -
  have step: "scheduled (new_effects (unclean_closes (n - 1) st) (unclean_closes n st)) =
                [min (1000 * 2 ^ n) 30000] \<and>
              callbacks (new_effects (unclean_closes (n - 1) st) (unclean_closes n st)) =
                [EvReconnect (min (1000 * 2 ^ n) 30000)]"
    if n: "0 < n" "n < maxAttempts" for n
  proof -
    obtain k where k: "n = Suc k" using n(1) by (cases n) auto
    have att: "reconnectAttempts (unclean_closes k st) = k"
      using assms by (simp add: unclean_closes_attempts)
    show ?thesis
      using onclose_reconnect [of "unclean_closes k st"] n(2) att k
      by (simp add: reconnect_delay_def)
  qed
  have att9: "reconnectAttempts (unclean_closes (maxAttempts - 1) st) = maxAttempts - 1"
    using assms by (simp add: unclean_closes_attempts)
  have suc: "unclean_closes maxAttempts st =
               onclose False (unclean_closes (maxAttempts - 1) st)"
    by (simp add: maxAttempts_def eval_nat_numeral)
  have last: "callbacks (new_effects (unclean_closes (maxAttempts - 1) st)
                  (unclean_closes maxAttempts st)) = [EvErrorMaxAttempts]"
       "scheduled (new_effects (unclean_closes (maxAttempts - 1) st)
                  (unclean_closes maxAttempts st)) = []"
    using onclose_terminal [of "unclean_closes (maxAttempts - 1) st"] att9
    unfolding suc by (simp_all add: maxAttempts_def)
  have whole: "callbacks (new_effects st (unclean_closes maxAttempts st)) =
                 map (\<lambda>n. EvReconnect (reconnect_delay n)) [1..<maxAttempts] @
                 [EvErrorMaxAttempts]"
  proof -
    have "new_effects st (unclean_closes maxAttempts st) =
            new_effects st (unclean_closes (maxAttempts - 1) st) @
            new_effects (unclean_closes (maxAttempts - 1) st) (unclean_closes maxAttempts st)"
      using new_effects_Suc [of st "maxAttempts - 1"] by (simp add: maxAttempts_def)
    moreover have "callbacks (new_effects st (unclean_closes (maxAttempts - 1) st)) =
            map (\<lambda>n. EvReconnect (reconnect_delay n)) [1..<maxAttempts]"
      using run_callbacks_before_terminal [OF assms, of "maxAttempts - 1"]
      by (simp add: maxAttempts_def)
    ultimately show ?thesis using last(1) by (simp add: callbacks_append)
  qed
  show ?thesis
    using step last whole reconnect_delay_increasing by (simp add: maxAttempts_def)
qed

theorem reconnect_backoff_then_terminal_error_witness:
  "reconnectAttempts initial = 0 \<and>
   scheduled (new_effects (unclean_closes 2 initial) (unclean_closes 3 initial)) = [8000] \<and>
   callbacks (new_effects (unclean_closes 2 initial) (unclean_closes 3 initial)) =
     [EvReconnect 8000] \<and>
   reconnect_delay 3 < reconnect_delay 4 \<and>
   scheduled (new_effects (unclean_closes 9 initial) (unclean_closes 10 initial)) = []"
proof -
  have a: "reconnectAttempts initial = 0" by (simp add: initial_def)
  note t = reconnect_backoff_then_terminal_error [OF a]
  have s: "scheduled (new_effects (unclean_closes 2 initial) (unclean_closes 3 initial)) =
             [8000] \<and>
           callbacks (new_effects (unclean_closes 2 initial) (unclean_closes 3 initial)) =
             [EvReconnect 8000]"
    using t [THEN conjunct1, rule_format, of 3] by (simp add: maxAttempts_def)
  have i: "reconnect_delay 3 < reconnect_delay 4"
    using t [THEN conjunct2, THEN conjunct1, rule_format, of 3]
    by (simp add: reconnect_delay_def)
  have l: "scheduled (new_effects (unclean_closes 9 initial) (unclean_closes 10 initial)) = []"
    using t by (simp add: maxAttempts_def)
  show ?thesis using a s i l by simp
qed

section \<open>Properties of the message handler and of sending\<close>

text \<open>
  C8. A frame that \<^verbatim>\<open>decodeURI\<close> or \<^verbatim>\<open>JSON.parse\<close> rejects is dropped: the handler returns
  normally, the callback is not called (the trace is the same) and no variable of the
  layer changes.
\<close>

theorem unparseable_frame_is_dropped:
  assumes "parse_frame E raw = None"
  shows "onmessage E raw answer st = (Returned None, st)"
  using assms by (simp add: onmessage_def)

theorem unparseable_frame_is_dropped_witness:
  "parse_frame example_env ''%'' = None \<and>
   onmessage example_env ''%'' None open_state = (Returned None, open_state)"
proof -
  have p: "parse_frame example_env ''%'' = None" by (simp add: example_env_def)
  show ?thesis using p unparseable_frame_is_dropped [OF p] by simp
qed

text \<open>
  C4. On an open connection \<^verbatim>\<open>postRealtime\<close> writes one frame: \<^verbatim>\<open>sendMessage\<close> with the
  recipient as \<^verbatim>\<open>uid\<close> when the recipient is a user id; \<^verbatim>\<open>broadcast\<close> with the recipient as
  \<^verbatim>\<open>rid\<close> and the same content when it is not a user id but equals the joined room; and
  when it is neither, an error is thrown and nothing is written. A recipient is a
  non-empty string: the empty string is refused before the addressing, with nothing
  written (last conjunct).
\<close>

theorem postRealtime_addressing:
  assumes "socket st = Socket OPEN"
  shows "(recipient \<noteq> [] \<and> valid_UserId E recipient \<longrightarrow>
            postRealtime E content recipient st =
              (Returned (), emit (Send (jwtToken E) (SendMessage recipient content)) st)) \<and>
         (recipient \<noteq> [] \<and> \<not> valid_UserId E recipient \<and> socket_room st = Some recipient \<longrightarrow>
            postRealtime E content recipient st =
              (Returned (), emit (Send (jwtToken E) (Broadcast recipient content)) st)) \<and>
         (\<not> valid_UserId E recipient \<and> socket_room st \<noteq> Some recipient \<longrightarrow>
            (\<exists>e. fst (postRealtime E content recipient st) = Thrown e) \<and>
            snd (postRealtime E content recipient st) = st) \<and>
         (recipient = [] \<longrightarrow> postRealtime E content recipient st = (Thrown NoRecipient, st))"
  using assms by (simp add: postRealtime_def)

theorem postRealtime_addressing_witness:
  "socket open_state = Socket OPEN \<and>
   postRealtime example_env (JStr ''hi'') ''U1'' open_state =
     (Returned (), emit (Send ''t'' (SendMessage ''U1'' (JStr ''hi''))) open_state) \<and>
   postRealtime example_env (JStr ''hi'') ''R1'' open_state =
     (Returned (), emit (Send ''t'' (Broadcast ''R1'' (JStr ''hi''))) open_state) \<and>
   snd (postRealtime example_env (JStr ''hi'') ''R2'' open_state) = open_state"
proof -
  have o: "socket open_state = Socket OPEN" by (simp add: open_state_def)
  have a: "postRealtime example_env (JStr ''hi'') ''U1'' open_state =
     (Returned (), emit (Send ''t'' (SendMessage ''U1'' (JStr ''hi''))) open_state)"
    using postRealtime_addressing [OF o, of "''U1''" example_env "JStr ''hi''"]
    by (simp add: example_env_def)
  have b: "postRealtime example_env (JStr ''hi'') ''R1'' open_state =
     (Returned (), emit (Send ''t'' (Broadcast ''R1'' (JStr ''hi''))) open_state)"
    using postRealtime_addressing [OF o, of "''R1''" example_env "JStr ''hi''"]
    by (simp add: example_env_def open_state_def)
  have c: "snd (postRealtime example_env (JStr ''hi'') ''R2'' open_state) = open_state"
    using postRealtime_addressing [OF o, of "''R2''" example_env "JStr ''hi''"]
    by (simp add: example_env_def open_state_def)
  show ?thesis using o a b c by simp
qed

section \<open>Properties of signaling\<close>

lemma calling_state_eq:
  "calling_state = open_state\<lparr>
     peerConnection := [(''U1'', \<lparr>connectionState = CsNew, iceServer = default_ice\<rparr>)],
     dataChannel := [(''U1'', [(''chat'', \<lparr>ch_readyState = ChConnecting\<rparr>),
                               (''file'', \<lparr>ch_readyState = ChConnecting\<rparr>)])],
     peerCallbacks := [(''U1'', 3)],
     caller_ringing := [(''U1'', \<lparr>r_recipient = ''U1'', r_callback = 3\<rparr>)],
     trace := [CreatePeer ''U1'' default_ice, CreateDataChannel ''U1'' ''chat'',
               CreateDataChannel ''U1'' ''file'', CreateOffer ''U1'',
               SetLocalDescription ''U1'', Send ''t'' (Rtc (Some ''U1'') CSdpOffer)]\<rparr>"
  by (simp add: calling_state_def connectRTC_def call_two_def open_state_def initial_def
        example_env_def media_refused_def setup_peer_def ensure_peer_def attach_media_def
        ensure_channels_def label_of_def sendOffer_def emit_def emits_def Let_def)

lemma ex_frames:
  "parse_frame example_env ''o1'' = Some (rtc_frame ''U1'' [(''sdpoffer'', JStr ''O1'')])"
  "parse_frame example_env ''o2'' = Some (rtc_frame ''U1'' [(''sdpoffer'', JStr ''O2'')])"
  "parse_frame example_env ''c1'' = Some (rtc_frame ''U1'' [(''candidate'', JStr ''C1'')])"
  "parse_frame example_env ''c2'' = Some (rtc_frame ''U1'' [(''candidate'', JStr ''C2'')])"
  "parse_frame example_env ''rj'' = Some (rtc_frame ''U1'' [(''reject'', JBool True)])"
  by (simp_all add: example_env_def)

lemma rtc_frame_msg:
  "make_msg (rtc_frame u kvs) =
     \<lparr>msg_type = TRtc, message = JObj kvs, sender = (if u = [] then None else Some u),
      sender_cid = Some ''scid:c1'', sender_rid = None, receiveRTC_handle = None\<rparr>"
  by (simp add: make_msg_def rtc_frame_def classify_def payload_def)



lemma ringing_state_eq:
  "ringing_state = open_state\<lparr>
     rtcSdpOffer := [(''U1'', [JStr ''O1'', JStr ''O2''])],
     rtcCandidates := [(''U1'', [JStr ''C1'', JStr ''C2''])],
     receiver_ringing := [(''U1'', True)],
     trace := [
       Callback (EvMsg ((make_msg (rtc_frame ''U1'' [(''sdpoffer'', JStr ''O1'')]))
                          \<lparr>receiveRTC_handle := Some first_offer_handle\<rparr>)),
       Callback (EvMsg (make_msg (rtc_frame ''U1'' [(''sdpoffer'', JStr ''O2'')]))),
       Callback (EvMsg (make_msg (rtc_frame ''U1'' [(''candidate'', JStr ''C1'')]))),
       Callback (EvMsg (make_msg (rtc_frame ''U1'' [(''candidate'', JStr ''C2'')])))]\<rparr>"
  by (simp add: ringing_state_def onmessage_def ex_frames rtc_frame_msg on_rtc_def
        on_candidate_def on_sdpoffer_def first_offer_handle_def
        open_state_def initial_def emit_def Let_def example_env_def)





lemma created_append: "created (xs @ ys) = created xs @ created ys"
  by (induction xs rule: created.induct) simp_all

lemma created_map: "created (map (CreateDataChannel k) ls) = map (Pair k) ls"
  by (induction ls) simp_all

lemma created_AddTrack: "created (map (AddTrack k) ts) = []"
  by (induction ts) simp_all

lemma create_channels_ok:
  assumes "distinct (map label_of ps)"
    and "set (map label_of ps) \<inter> set (channel_labels k st) = {}"
  shows "\<exists>st'. create_channels k ps st = (Returned (), st') \<and>
           trace st' = trace st @ map (CreateDataChannel k) (map label_of ps) \<and>
           channel_labels k st' = channel_labels k st @ map label_of ps"
  using assms
proof (induction ps arbitrary: st)
  case Nil
  show ?case by simp
next
  case (Cons p ps)
  let ?l = "label_of p"
  let ?chans = "case map_of (dataChannel st) k of None \<Rightarrow> [] | Some cs \<Rightarrow> cs"
  let ?st1 = "emit (CreateDataChannel k ?l)
                (st\<lparr>dataChannel :=
                      AList.update k (AList.update ?l \<lparr>ch_readyState = ChConnecting\<rparr> ?chans)
                        (dataChannel st)\<rparr>)"
  have notin: "?l \<notin> set (map fst ?chans)"
    using Cons.prems(2) by (auto simp: channel_labels_def)
  have labels1: "channel_labels k ?st1 = channel_labels k st @ [?l]"
    using notin by (simp add: channel_labels_def emit_def update_conv' update_keys)
  have step: "create_channels k (p # ps) st = create_channels k ps ?st1"
    using notin by (simp add: Let_def)
  have d: "distinct (map label_of ps)" using Cons.prems(1) by simp
  have i: "set (map label_of ps) \<inter> set (channel_labels k ?st1) = {}"
    using Cons.prems labels1 by auto
  from Cons.IH [OF d i] obtain st' where
    st': "create_channels k ps ?st1 = (Returned (), st')"
      "trace st' = trace ?st1 @ map (CreateDataChannel k) (map label_of ps)"
      "channel_labels k st' = channel_labels k ?st1 @ map label_of ps"
    by blast
  show ?case
    using st' labels1 unfolding step by (simp add: emit_def)
qed

lemma create_channels_dup:
  assumes "\<not> (distinct (map label_of ps) \<and>
              set (map label_of ps) \<inter> set (channel_labels k st) = {})"
  shows "\<exists>l st'. create_channels k ps st = (Thrown (DuplicateChannel l), st') \<and>
           l \<in> set (map label_of ps)"
  using assms
proof (induction ps arbitrary: st)
  case Nil
  then show ?case by simp
next
  case (Cons p ps)
  let ?l = "label_of p"
  let ?chans = "case map_of (dataChannel st) k of None \<Rightarrow> [] | Some cs \<Rightarrow> cs"
  let ?st1 = "emit (CreateDataChannel k ?l)
                (st\<lparr>dataChannel :=
                      AList.update k (AList.update ?l \<lparr>ch_readyState = ChConnecting\<rparr> ?chans)
                        (dataChannel st)\<rparr>)"
  show ?case
  proof (cases "?l \<in> set (map fst ?chans)")
    case True
    then show ?thesis by (auto simp: Let_def)
  next
    case False
    have labels1: "channel_labels k ?st1 = channel_labels k st @ [?l]"
      using False by (simp add: channel_labels_def emit_def update_conv' update_keys)
    have step: "create_channels k (p # ps) st = create_channels k ps ?st1"
      using False by (simp add: Let_def)
    have "\<not> (distinct (map label_of ps) \<and>
              set (map label_of ps) \<inter> set (channel_labels k ?st1) = {})"
      using Cons.prems False labels1 by (auto simp: channel_labels_def)
    from Cons.IH [OF this] show ?thesis unfolding step by auto
  qed
qed

lemma setup_peer_facts:
  "\<exists>es. trace (setup_peer E k ice m cb st) = trace st @ es \<and> created es = []"
  "channel_labels k (setup_peer E k ice m cb st) = channel_labels k st"
  by (auto simp: setup_peer_def ensure_channels_def attach_media_def ensure_peer_def emit_def
        emits_def channel_labels_def update_conv' created_AddTrack created_append Let_def
      split: option.splits media.splits)

lemma sendOffer_facts:
  "\<exists>es. trace (snd (sendOffer E r st)) = trace st @ es \<and> created es = []"
  "dataChannel (snd (sendOffer E r st)) = dataChannel st"
  "\<forall>l. fst (sendOffer E r st) \<noteq> Thrown (DuplicateChannel l)"
  by (auto simp: sendOffer_def emit_def emits_def Let_def split: sock.splits option.splits)

lemma connectRTC_open:
  assumes "socket st = Socket OPEN" and "\<not> media_refused E (c_mediaStream params)"
  shows "connectRTC E params cb st =
     (case create_channels (c_recipient params)
             (case c_dataChannelOptions params of None \<Rightarrow> [Some ''default''] | Some os \<Rightarrow> os)
             (setup_peer E (c_recipient params) (c_ice params) (c_mediaStream params) cb st) of
        (Returned u, st4) \<Rightarrow>
          (case sendOffer E (c_recipient params) st4 of
             (Returned u, st5) \<Rightarrow>
               (Returned (),
                st5\<lparr>caller_ringing :=
                      AList.update (c_recipient params)
                        \<lparr>r_recipient = c_recipient params, r_callback = cb\<rparr>
                        (caller_ringing st5)\<rparr>)
           | (r, st5) \<Rightarrow> (r, st5))
      | (r, st4) \<Rightarrow> (r, st4))"
  using assms by (simp add: connectRTC_def Let_def)

text \<open>
  C9. A call of \<^verbatim>\<open>connectRTC\<close> that reaches the channel loop (the socket is open and the
  media check passes) with the labels it requests (each option's protocol, or
  \<^verbatim>\<open>'default'\<close>): when two of the labels are equal, or one is already a channel of the
  recipient, the call throws the duplicate-label error for one of the requested labels;
  otherwise it creates exactly one data channel per requested label, in order, and
  the recipient's channels afterwards are the earlier ones followed by the new ones.
\<close>

theorem connectRTC_channel_labels:
  assumes "socket st = Socket OPEN" and "\<not> media_refused E (c_mediaStream params)"
  shows "(\<not> distinct (requested_labels params) \<or>
          set (requested_labels params) \<inter> set (channel_labels (c_recipient params) st) \<noteq> {} \<longrightarrow>
            (\<exists>l. fst (connectRTC E params cb st) = Thrown (DuplicateChannel l) \<and>
                 l \<in> set (requested_labels params))) \<and>
         (distinct (requested_labels params) \<and>
          set (requested_labels params) \<inter> set (channel_labels (c_recipient params) st) = {} \<longrightarrow>
            created (new_effects st (snd (connectRTC E params cb st))) =
              map (Pair (c_recipient params)) (requested_labels params) \<and>
            channel_labels (c_recipient params) (snd (connectRTC E params cb st)) =
              channel_labels (c_recipient params) st @ requested_labels params \<and>
            (\<forall>l. fst (connectRTC E params cb st) \<noteq> Thrown (DuplicateChannel l)))"
proof -
  let ?k = "c_recipient params"
  let ?ps = "case c_dataChannelOptions params of None \<Rightarrow> [Some ''default''] | Some os \<Rightarrow> os"
  let ?st3 = "setup_peer E ?k (c_ice params) (c_mediaStream params) cb st"
  have labels: "requested_labels params = map label_of ?ps"
    by (simp add: requested_labels_def)
  obtain es where es: "trace ?st3 = trace st @ es" "created es = []"
    using setup_peer_facts(1) by blast
  have l3: "channel_labels ?k ?st3 = channel_labels ?k st"
    by (rule setup_peer_facts(2))
  have dup: "\<exists>l. fst (connectRTC E params cb st) = Thrown (DuplicateChannel l) \<and>
                 l \<in> set (requested_labels params)"
    if "\<not> (distinct (requested_labels params) \<and>
           set (requested_labels params) \<inter> set (channel_labels ?k st) = {})"
  proof -
    from that have "\<not> (distinct (map label_of ?ps) \<and>
           set (map label_of ?ps) \<inter> set (channel_labels ?k ?st3) = {})"
      unfolding labels l3 .
    from create_channels_dup [OF this] obtain l st' where
      "create_channels ?k ?ps ?st3 = (Thrown (DuplicateChannel l), st')"
      "l \<in> set (map label_of ?ps)" by blast
    then show ?thesis
      unfolding connectRTC_open [OF assms] labels by auto
  qed
  have ok: "created (new_effects st (snd (connectRTC E params cb st))) =
              map (Pair ?k) (requested_labels params) \<and>
            channel_labels ?k (snd (connectRTC E params cb st)) =
              channel_labels ?k st @ requested_labels params \<and>
            (\<forall>l. fst (connectRTC E params cb st) \<noteq> Thrown (DuplicateChannel l))"
    if d: "distinct (requested_labels params)"
      and i: "set (requested_labels params) \<inter> set (channel_labels ?k st) = {}"
  proof -
    have d': "distinct (map label_of ?ps)" using d unfolding labels .
    have i': "set (map label_of ?ps) \<inter> set (channel_labels ?k ?st3) = {}"
      using i unfolding labels l3 .
    from create_channels_ok [OF d' i'] obtain st4 where
      st4: "create_channels ?k ?ps ?st3 = (Returned (), st4)"
        "trace st4 = trace ?st3 @ map (CreateDataChannel ?k) (map label_of ?ps)"
        "channel_labels ?k st4 = channel_labels ?k ?st3 @ map label_of ?ps"
      by blast
    obtain r st5 where so: "sendOffer E ?k st4 = (r, st5)" by (cases "sendOffer E ?k st4")
    obtain fs where fs: "trace st5 = trace st4 @ fs" "created fs = []"
      using sendOffer_facts(1) [of E ?k st4] so by auto
    have dc5: "dataChannel st5 = dataChannel st4"
      using sendOffer_facts(2) [of E ?k st4] so by simp
    have nd: "\<forall>l. r \<noteq> Thrown (DuplicateChannel l)"
      using sendOffer_facts(3) [of E ?k st4] so by simp
    let ?res = "connectRTC E params cb st"
    have tr: "trace (snd ?res) =
                trace st @ (es @ map (CreateDataChannel ?k) (map label_of ?ps) @ fs)"
      unfolding connectRTC_open [OF assms] using st4 so fs es by (cases r) simp_all
    have dc: "dataChannel (snd ?res) = dataChannel st4"
      unfolding connectRTC_open [OF assms] using st4 so dc5 by (cases r) simp_all
    have res: "\<forall>l. fst ?res \<noteq> Thrown (DuplicateChannel l)"
      unfolding connectRTC_open [OF assms] using st4 so nd by (cases r) simp_all
    have ne: "new_effects st (snd ?res) =
                es @ map (CreateDataChannel ?k) (map label_of ?ps) @ fs"
      by (rule new_effects_append [OF tr])
    have "created (new_effects st (snd ?res)) = map (Pair ?k) (map label_of ?ps)"
      unfolding ne created_append es(2) fs(2) created_map by simp
    moreover have "channel_labels ?k (snd ?res) = channel_labels ?k st @ map label_of ?ps"
      using dc st4(3) l3 by (simp add: channel_labels_def)
    ultimately show ?thesis using res unfolding labels by simp
  qed
  show ?thesis using dup ok by blast
qed

theorem connectRTC_channel_labels_witness:
  "socket open_state = Socket OPEN \<and>
   fst (connectRTC example_env call_twice 3 open_state) = Thrown (DuplicateChannel ''chat'') \<and>
   created (new_effects open_state (snd (connectRTC example_env call_two 3 open_state))) =
     [(''U1'', ''chat''), (''U1'', ''file'')]"
proof -
  have o: "socket open_state = Socket OPEN" by (simp add: open_state_def)
  have m: "\<not> media_refused example_env (c_mediaStream call_two)"
    "\<not> media_refused example_env (c_mediaStream call_twice)"
    by (simp_all add: media_refused_def call_two_def call_twice_def)
  have l2: "requested_labels call_two = [''chat'', ''file'']"
    "requested_labels call_twice = [''chat'', ''chat'']"
    by (simp_all add: requested_labels_def call_two_def call_twice_def label_of_def)
  have c: "channel_labels ''U1'' open_state = []"
    by (simp add: channel_labels_def open_state_def initial_def)
  have r: "c_recipient call_two = ''U1''" "c_recipient call_twice = ''U1''"
    by (simp_all add: call_two_def call_twice_def)
  have a: "fst (connectRTC example_env call_twice 3 open_state) =
             Thrown (DuplicateChannel ''chat'')"
    using connectRTC_channel_labels [OF o m(2), of 3] unfolding l2 r c by auto
  have b: "created (new_effects open_state (snd (connectRTC example_env call_two 3 open_state))) =
     [(''U1'', ''chat''), (''U1'', ''file'')]"
    using connectRTC_channel_labels [OF o m(1), of 3] unfolding l2 r c by simp
  show ?thesis using o a b by simp
qed

lemma applied_append: "applied k (xs @ ys) = applied k xs @ applied k ys"
  by (induction k xs rule: applied.induct) simp_all

lemma applied_candidates: "applied k (map (AddIceCandidate k) cs) = map Candidate cs"
  by (induction cs) simp_all

lemma applied_tracks: "applied k (map (AddTrack k') ts) = []"
  by (induction ts) simp_all

lemma applied_answers: "applied (key_of frm) (answers E frm os) = map Offer os"
  by (induction os) (simp_all add: answers_def)

lemma sdpanswer_all_run:
  assumes "socket st = Socket rs" and "map_of (peerConnection st) (key_of frm) = Some pc"
  shows "sdpanswer_all E frm os st = (Returned (), st\<lparr>trace := trace st @ answers E frm os\<rparr>)"
  using assms
proof (induction os arbitrary: st)
  case Nil
  show ?case by (simp add: answers_def)
next
  case (Cons x os)
  let ?st1 = "emits [SetRemoteDescription (key_of frm) x, CreateAnswer (key_of frm),
                     SetLocalDescription (key_of frm),
                     Send (jwtToken E) (Rtc frm (CSdpAnswer x))] st"
  have one: "sdpanswer E frm x st = (Returned (), ?st1)"
    using Cons.prems by (simp add: sdpanswer_def Let_def)
  have s: "socket ?st1 = Socket rs" "map_of (peerConnection ?st1) (key_of frm) = Some pc"
    using Cons.prems by (simp_all add: emits_def)
  show ?case
    using Cons.IH [OF s] one by (simp add: emits_def answers_def)
qed

lemma addIceCandidate_all_run:
  assumes "map_of (peerConnection st) (key_of frm) = Some pc"
  shows "addIceCandidate_all frm cs st =
           (Returned (), st\<lparr>trace := trace st @ map (AddIceCandidate (key_of frm)) cs\<rparr>)"
  using assms
proof (induction cs arbitrary: st)
  case Nil
  show ?case by simp
next
  case (Cons x cs)
  let ?st1 = "emit (AddIceCandidate (key_of frm) x) st"
  have one: "addIceCandidate frm x st = (Returned (), ?st1)"
    using Cons.prems by (simp add: addIceCandidate_def Let_def)
  have s: "map_of (peerConnection ?st1) (key_of frm) = Some pc"
    using Cons.prems by (simp add: emit_def)
  show ?case
    using Cons.IH [OF s] one by (simp add: emit_def)
qed

lemma setup_peer_accept:
  "\<exists>es pc. trace (setup_peer E k ice m cb st) = trace st @ es \<and> applied k es = [] \<and>
     map_of (peerConnection (setup_peer E k ice m cb st)) k = Some pc \<and>
     socket (setup_peer E k ice m cb st) = socket st \<and>
     rtcSdpOffer (setup_peer E k ice m cb st) = rtcSdpOffer st \<and>
     rtcCandidates (setup_peer E k ice m cb st) = rtcCandidates st"
  by (auto simp: setup_peer_def ensure_channels_def attach_media_def ensure_peer_def emit_def
        emits_def update_conv' applied_tracks applied_append Let_def
      split: option.splits media.splits)

text \<open>
  What accepting applies, in general: the buffered offers in order, then the buffered
  candidates in order, then the offer of the frame the handle came with.
\<close>

lemma accept_applies_buffers_then_own_offer:
  assumes "socket st = Socket rs" and "\<not> media_refused E (p_mediaStream params)"
    and "\<not> p_reject params"
    and "map_of (rtcSdpOffer st) (key_of (h_sender h)) = Some offers" and "offers \<noteq> []"
    and "map_of (rtcCandidates st) (key_of (h_sender h)) = Some candidates"
    and "jget (h_rtc h) ''sdpoffer'' = Some own" and "truthy own"
  shows "fst (receiveRTC E h params cb st) = Returned () \<and>
         applied (key_of (h_sender h)) (new_effects st (snd (receiveRTC E h params cb st))) =
           map Offer offers @ map Candidate candidates @ [Offer own]"
proof -
  let ?k = "key_of (h_sender h)"
  let ?frm = "h_sender h"
  let ?st3 = "setup_peer E ?k (p_ice params) (p_mediaStream params) cb st"
  obtain es pc where s3: "trace ?st3 = trace st @ es" "applied ?k es = []"
      "map_of (peerConnection ?st3) ?k = Some pc" "socket ?st3 = Socket rs"
      "map_of (rtcSdpOffer ?st3) ?k = Some offers"
      "map_of (rtcCandidates ?st3) ?k = Some candidates"
    using setup_peer_accept [of E ?k "p_ice params" "p_mediaStream params" cb st] assms(1,4,6)
    by auto
  let ?st4 = "?st3\<lparr>trace := trace ?st3 @ answers E ?frm offers\<rparr>"
  have a: "sdpanswer_all E ?frm offers ?st3 = (Returned (), ?st4)"
    by (rule sdpanswer_all_run [OF s3(4,3)])
  let ?st5 = "?st4\<lparr>rtcSdpOffer := AList.delete ?k (rtcSdpOffer ?st4)\<rparr>"
  have p5: "map_of (peerConnection ?st5) ?k = Some pc" using s3(3) by simp
  let ?st6 = "?st5\<lparr>trace := trace ?st5 @ map (AddIceCandidate ?k) candidates\<rparr>"
  have c: "addIceCandidate_all ?frm candidates ?st5 = (Returned (), ?st6)"
    by (rule addIceCandidate_all_run [OF p5])
  let ?st7 = "(if candidates = [] then ?st5
               else ?st6\<lparr>rtcCandidates := AList.delete ?k (rtcCandidates ?st6)\<rparr>)"
  have f: "flush_buffers E ?frm ?st3 = (Returned (), ?st7)"
  proof (cases offers)
    case Nil
    then show ?thesis using assms(5) by simp
  next
    case (Cons x xs)
    show ?thesis
    proof (cases candidates)
      case Nil
      then show ?thesis
        using s3(5,6) a Cons by (simp add: flush_buffers_def Let_def)
    next
      case (Cons y ys)
      then show ?thesis
        using s3(5,6) a c \<open>offers = x # xs\<close> by (simp add: flush_buffers_def Let_def)
    qed
  qed
  have t7: "trace ?st7 = trace st @ es @ answers E ?frm offers @
              map (AddIceCandidate ?k) candidates"
    using s3(1) by (cases "candidates = []") simp_all
  have p7: "map_of (peerConnection ?st7) ?k = Some pc" "socket ?st7 = Socket rs"
    using s3(3,4) by (cases "candidates = []"; simp)+
  let ?st8 = "emits [SetRemoteDescription ?k own, CreateAnswer ?k, SetLocalDescription ?k,
                     Send (jwtToken E) (Rtc ?frm (CSdpAnswer own))] ?st7"
  have o: "sdpanswer E ?frm own ?st7 = (Returned (), ?st8)"
    using p7 by (simp add: sdpanswer_def Let_def)
  let ?st9 = "emits [Send (jwtToken E) (Rtc ?frm CPickup), PeerCallback cb (PePickup ?k)] ?st8"
  have r: "receiveRTC E h params cb st =
             (Returned (), ?st9\<lparr>receiver_ringing := AList.delete ?k (receiver_ringing ?st9)\<rparr>)"
    using assms(1-3,7,8) f o by (simp add: receiveRTC_def Let_def)
  have tr: "trace (snd (receiveRTC E h params cb st)) =
              trace st @ (es @ answers E ?frm offers @ map (AddIceCandidate ?k) candidates @
                [SetRemoteDescription ?k own, CreateAnswer ?k, SetLocalDescription ?k,
                 Send (jwtToken E) (Rtc ?frm (CSdpAnswer own)),
                 Send (jwtToken E) (Rtc ?frm CPickup), PeerCallback cb (PePickup ?k)])"
    unfolding r using t7 by (simp add: emits_def)
  show ?thesis
    unfolding new_effects_append [OF tr] applied_append
    using r s3(2) by (simp add: applied_answers applied_candidates)
qed

text \<open>
  C1. The run the claim describes, on the code: the offers \<^verbatim>\<open>O1\<close>, \<^verbatim>\<open>O2\<close> and then the
  candidates \<^verbatim>\<open>C1\<close>, \<^verbatim>\<open>C2\<close> of \<^verbatim>\<open>U1\<close> arrive while there is no peer connection
  (\<open>ringing_state\<close>), then the handle the callback got with \<^verbatim>\<open>O1\<close> is called to accept.
  The remote signals applied to the peer connection are \<^verbatim>\<open>O1\<close>, \<^verbatim>\<open>O2\<close>, \<^verbatim>\<open>C1\<close>, \<^verbatim>\<open>C2\<close> and
  then \<^verbatim>\<open>O1\<close> once more: after the buffers are flushed the handle applies the offer of its
  own frame, which is also the first buffered offer.
\<close>

theorem accept_applies_first_offer_again:
  "applied ''U1''
     (new_effects ringing_state
        (snd (receiveRTC example_env first_offer_handle accept 7 ringing_state))) =
   [Offer (JStr ''O1''), Offer (JStr ''O2''), Candidate (JStr ''C1''), Candidate (JStr ''C2''),
    Offer (JStr ''O1'')]"
  by (simp add: ringing_state_eq receiveRTC_def first_offer_handle_def accept_def
        media_refused_def open_state_def initial_def setup_peer_def ensure_peer_def
        attach_media_def ensure_channels_def flush_buffers_def sdpanswer_def
        addIceCandidate_def emit_def emits_def new_effects_def Let_def)

lemma closeRTC_active:
  assumes "recipient \<noteq> []"
    and "map_of (peerConnection st) recipient = Some pc"
    and "map_of (peerCallbacks st) recipient = Some c"
  shows "closeRTC (Some recipient) st =
     (Returned (),
      st\<lparr>rtcSdpOffer := AList.delete recipient (rtcSdpOffer st),
         rtcCandidates := AList.delete recipient (rtcCandidates st),
         dataChannel := AList.delete recipient (dataChannel st),
         peerConnection := AList.delete recipient (peerConnection st),
         trace := trace st @ map (CloseChannel recipient) (open_channels recipient st) @
                  (if connectionState pc \<noteq> CsClosed then [ClosePeer recipient] else []) @
                  [PeerCallback c (PeConnectionStateChange recipient CsClosed)]\<rparr>)"
proof -
  have m: "map (\<lambda>(l, ch). CloseChannel recipient l) xs = map (CloseChannel recipient) (map fst xs)"
    for xs :: "(string \<times> channel) list"
    by (induction xs) auto
  show ?thesis
    using assms
    by (simp add: closeRTC_def Let_def emit_def emits_def open_channels_def m delete_update_same)
qed

lemma candidate_without_peer:
  assumes "parse_frame E raw = Some d" and "classify d = TRtc"
    and "payload d = JObj [(''candidate'', cand)]" and "truthy cand"
    and "sender (make_msg d) = Some k" and "k \<noteq> own_user_id E"
    and "map_of (peerConnection s) k = None"
  shows "onmessage E raw answer s =
     (Returned (Some (make_msg d)),
      emit (Callback (EvMsg (make_msg d)))
        (s\<lparr>rtcCandidates :=
             AList.update k
               ((case map_of (rtcCandidates s) k of None \<Rightarrow> [] | Some cs \<Rightarrow> cs) @ [cand])
               (rtcCandidates s)\<rparr>))"
proof -
  have t: "msg_type (make_msg d) = TRtc" "message (make_msg d) = JObj [(''candidate'', cand)]"
    using assms(2,3) by (simp_all add: make_msg_def)
  have "onmessage E raw answer s = on_rtc E (make_msg d) s"
    using assms(1) t by (simp add: onmessage_def Let_def)
  also have "\<dots> = (Returned (Some (make_msg d)),
      emit (Callback (EvMsg (make_msg d)))
        (s\<lparr>rtcCandidates :=
             AList.update k
               ((case map_of (rtcCandidates s) k of None \<Rightarrow> [] | Some cs \<Rightarrow> cs) @ [cand])
               (rtcCandidates s)\<rparr>))"
    using assms(4-7) t by (simp add: on_rtc_def on_candidate_def Let_def)
  finally show ?thesis .
qed

text \<open>
  C3, as the code has it. For a peer with an active call (a peer connection and its
  registered callback), \<^verbatim>\<open>closeRTC\<close> returns after these effects, in this order: every
  data channel of the peer that is not closed is closed, the peer connection is closed
  (unless it is closed already), and the registered callback gets exactly one
  \<^verbatim>\<open>connectionstatechange\<close> event, with the state \<^verbatim>\<open>closed\<close>. Afterwards the peer has no
  buffered offers, no buffered candidates, no data-channel map and no peer connection.
  A frame with an ICE candidate of that peer that arrives afterwards is not applied to
  any peer connection: the candidate starts a new buffer of the peer, and the frame is
  given to the realtime callback.
\<close>

theorem closeRTC_teardown:
  assumes "recipient \<noteq> []"
    and "map_of (peerConnection st) recipient = Some pc"
    and "map_of (peerCallbacks st) recipient = Some c"
  shows "fst (closeRTC (Some recipient) st) = Returned () \<and>
         new_effects st (snd (closeRTC (Some recipient) st)) =
           map (CloseChannel recipient) (open_channels recipient st) @
           (if connectionState pc \<noteq> CsClosed then [ClosePeer recipient] else []) @
           [PeerCallback c (PeConnectionStateChange recipient CsClosed)] \<and>
         map_of (rtcSdpOffer (snd (closeRTC (Some recipient) st))) recipient = None \<and>
         map_of (rtcCandidates (snd (closeRTC (Some recipient) st))) recipient = None \<and>
         map_of (dataChannel (snd (closeRTC (Some recipient) st))) recipient = None \<and>
         map_of (peerConnection (snd (closeRTC (Some recipient) st))) recipient = None \<and>
         (parse_frame E raw = Some d \<and> classify d = TRtc \<and>
          payload d = JObj [(''candidate'', cand)] \<and> truthy cand \<and>
          sender (make_msg d) = Some recipient \<and> recipient \<noteq> own_user_id E \<longrightarrow>
            onmessage E raw answer (snd (closeRTC (Some recipient) st)) =
              (Returned (Some (make_msg d)),
               emit (Callback (EvMsg (make_msg d)))
                 ((snd (closeRTC (Some recipient) st))
                    \<lparr>rtcCandidates :=
                       AList.update recipient [cand]
                         (rtcCandidates (snd (closeRTC (Some recipient) st)))\<rparr>)))"
proof -
  let ?st' = "snd (closeRTC (Some recipient) st)"
  note c = closeRTC_active [OF assms]
  have r: "fst (closeRTC (Some recipient) st) = Returned ()" by (simp add: c)
  have e: "new_effects st ?st' =
           map (CloseChannel recipient) (open_channels recipient st) @
           (if connectionState pc \<noteq> CsClosed then [ClosePeer recipient] else []) @
           [PeerCallback c (PeConnectionStateChange recipient CsClosed)]"
    by (rule new_effects_append) (simp add: c)
  have p: "map_of (rtcSdpOffer ?st') recipient = None"
    "map_of (rtcCandidates ?st') recipient = None"
    "map_of (dataChannel ?st') recipient = None"
    "map_of (peerConnection ?st') recipient = None"
    by (simp_all add: c delete_conv')
  have l: "onmessage E raw answer ?st' =
              (Returned (Some (make_msg d)),
               emit (Callback (EvMsg (make_msg d)))
                 (?st'\<lparr>rtcCandidates := AList.update recipient [cand] (rtcCandidates ?st')\<rparr>))"
    if "parse_frame E raw = Some d" "classify d = TRtc"
       "payload d = JObj [(''candidate'', cand)]" "truthy cand"
       "sender (make_msg d) = Some recipient" "recipient \<noteq> own_user_id E"
    using candidate_without_peer [OF that p(4), of answer] p(2) by simp
  show ?thesis using r e p l by blast
qed

lemma calling_state_facts:
  "map_of (peerConnection calling_state) ''U1'' =
     Some \<lparr>connectionState = CsNew, iceServer = default_ice\<rparr>"
  "map_of (peerCallbacks calling_state) ''U1'' = Some 3"
  "open_channels ''U1'' calling_state = [''chat'', ''file'']"
  by (simp_all add: calling_state_eq open_channels_def)

lemma candidate_frame_facts:
  "classify (rtc_frame ''U1'' [(''candidate'', JStr ''C1'')]) = TRtc"
  "payload (rtc_frame ''U1'' [(''candidate'', JStr ''C1'')]) = JObj [(''candidate'', JStr ''C1'')]"
  "sender (make_msg (rtc_frame ''U1'' [(''candidate'', JStr ''C1'')])) = Some ''U1''"
  "own_user_id example_env = ''me''"
  by (simp_all add: rtc_frame_def classify_def payload_def make_msg_def example_env_def)

theorem closeRTC_teardown_witness:
  "new_effects calling_state (snd (closeRTC (Some ''U1'') calling_state)) =
     [CloseChannel ''U1'' ''chat'', CloseChannel ''U1'' ''file'', ClosePeer ''U1'',
      PeerCallback 3 (PeConnectionStateChange ''U1'' CsClosed)] \<and>
   map_of (peerConnection (snd (closeRTC (Some ''U1'') calling_state))) ''U1'' = None \<and>
   rtcCandidates (snd (onmessage example_env ''c1'' None
                         (snd (closeRTC (Some ''U1'') calling_state)))) =
     AList.update ''U1'' [JStr ''C1'']
       (rtcCandidates (snd (closeRTC (Some ''U1'') calling_state)))"
proof -
  have n: "''U1'' \<noteq> []" by simp
  note t = closeRTC_teardown [OF n calling_state_facts(1,2),
      of example_env "''c1''" "rtc_frame ''U1'' [(''candidate'', JStr ''C1'')]" "JStr ''C1''" None]
  have a: "new_effects calling_state (snd (closeRTC (Some ''U1'') calling_state)) =
     [CloseChannel ''U1'' ''chat'', CloseChannel ''U1'' ''file'', ClosePeer ''U1'',
      PeerCallback 3 (PeConnectionStateChange ''U1'' CsClosed)]"
    using t by (simp add: calling_state_facts(3))
  have b: "map_of (peerConnection (snd (closeRTC (Some ''U1'') calling_state))) ''U1'' = None"
    using t by simp
  have f: "parse_frame example_env ''c1'' =
             Some (rtc_frame ''U1'' [(''candidate'', JStr ''C1'')])"
    by (rule ex_frames)
  have c: "onmessage example_env ''c1'' None (snd (closeRTC (Some ''U1'') calling_state)) =
     (Returned (Some (make_msg (rtc_frame ''U1'' [(''candidate'', JStr ''C1'')]))),
      emit (Callback (EvMsg (make_msg (rtc_frame ''U1'' [(''candidate'', JStr ''C1'')]))))
        ((snd (closeRTC (Some ''U1'') calling_state))
           \<lparr>rtcCandidates :=
              AList.update ''U1'' [JStr ''C1'']
                (rtcCandidates (snd (closeRTC (Some ''U1'') calling_state)))\<rparr>))"
    using t f candidate_frame_facts by simp
  show ?thesis using a b unfolding c by (simp add: emit_def)
qed

text \<open>
  C3 as stated fails on the code: after the hangup of the call of \<open>calling_state\<close> the
  candidate buffer of \<^verbatim>\<open>U1\<close> is empty, and a candidate of \<^verbatim>\<open>U1\<close> that arrives then is
  buffered and reaches the realtime callback, so it is not a no-op; and the entry of
  \<^verbatim>\<open>U1\<close> in \<^verbatim>\<open>__caller_ringing\<close> is still there after the hangup.
\<close>

theorem candidate_after_teardown_is_buffered:
  "rtcCandidates (snd (closeRTC (Some ''U1'') calling_state)) = [] \<and>
   rtcCandidates (snd (onmessage example_env ''c1'' None
                         (snd (closeRTC (Some ''U1'') calling_state)))) =
     [(''U1'', [JStr ''C1''])] \<and>
   callbacks (new_effects (snd (closeRTC (Some ''U1'') calling_state))
                (snd (onmessage example_env ''c1'' None
                        (snd (closeRTC (Some ''U1'') calling_state))))) =
     [EvMsg (make_msg (rtc_frame ''U1'' [(''candidate'', JStr ''C1'')]))] \<and>
   caller_ringing (snd (closeRTC (Some ''U1'') calling_state)) =
     [(''U1'', \<lparr>r_recipient = ''U1'', r_callback = 3\<rparr>)]"
proof -
  have n: "''U1'' \<noteq> []" by simp
  note c = closeRTC_active [OF n calling_state_facts(1,2)]
  have m: "make_msg (rtc_frame ''U1'' [(''candidate'', JStr ''C1'')]) =
     \<lparr>msg_type = TRtc, message = JObj [(''candidate'', JStr ''C1'')], sender = Some ''U1'',
      sender_cid = Some ''scid:c1'', sender_rid = None, receiveRTC_handle = None\<rparr>"
    by (simp add: rtc_frame_msg)
  show ?thesis
    unfolding c
    by (simp add: calling_state_eq open_state_def initial_def onmessage_def ex_frames m
          on_rtc_def on_candidate_def emit_def new_effects_def Let_def example_env_def)
qed

section \<open>Properties of room membership\<close>









lemma map_of_update_eq:
  "map_of (AList.update k v al) k' = (if k' = k then Some v else map_of al k')"
  by (simp add: update_conv')











lemma well_formed_track_connection:
  assumes "well_formed rl"
  shows "well_formed (track_connection g u c rl)"
  using assms unfolding well_formed_def
  by (auto simp: track_connection_def map_of_update_eq split: option.splits if_splits)

lemma well_formed_settle_request:
  assumes "well_formed (roomList st)"
  shows "well_formed (roomList (settle_request n answer st))"
proof -
  have f: "well_formed (foldl (\<lambda>rl (u, c). track_connection g u (Some c) rl) rl es)"
    if "well_formed rl" for g rl and es :: "(string \<times> string) list"
    using that
    by (induction es arbitrary: rl) (auto simp: well_formed_track_connection)
  show ?thesis
    using assms f
    by (auto simp: settle_request_def Let_def split: option.splits prod.splits)
qed


lemma getRealtimeUsers_dedup:
  assumes "grp \<noteq> []" and "map_of (roomPending st) grp = Some p"
  shows "getRealtimeUsers E grp None st = (Returned p, st)"
  using assms by (simp add: getRealtimeUsers_def)

lemma settle_request_unregisters:
  assumes "map_of (requests st) n = Some (g, f)"
  shows "map_of (roomPending (settle_request n answer st)) g = None"
    and "map_of (requests (settle_request n answer st)) n = None"
  using assms
  by (auto simp: settle_request_def Let_def delete_conv' split: option.splits)

text \<open>
  C7. The three calls of \<open>query_race\<close>, on the code: the second, filtered query settles
  and its \<^verbatim>\<open>finally\<close> deletes the group's entry of \<^verbatim>\<open>__roomPending\<close>, which belongs to the
  first query. The third call, unfiltered and for the same group, is then made while
  request 0 is still in flight, and it issues request 2 and returns that promise
  instead of promise 0.
\<close>

theorem filtered_query_unregisters_pending_query:
  "fst query_race = Returned 2 \<and>
   map_of (requests (snd query_race)) 0 = Some (''R1'', None) \<and>
   trace (snd query_race) =
     [Request 0 ''R1'' None, Request 1 ''R1'' (Some ''U1''), Request 2 ''R1'' None]"
  by (simp add: query_race_def getRealtimeUsers_def settle_request_def open_state_def
        initial_def example_env_def emit_def Let_def)










end
